theory Spec2Isabelle
  imports Main
begin

section \<open>Strings and arrays as the JavaScript code uses them\<close>

text \<open>
  A JavaScript string is modelled as a \<^typ>\<open>string\<close>, one \<^typ>\<open>char\<close> per code unit
  (code units up to 0xFF). The helpers below are the methods of \<open>String.prototype\<close> and
  \<open>Array.prototype\<close> that the sources and their tests call.
\<close>

fun startsWith :: "string \<Rightarrow> string \<Rightarrow> bool" where
  "startsWith s [] = True"
| "startsWith [] (p # ps) = False"
| "startsWith (c # cs) (p # ps) = (c = p \<and> startsWith cs ps)"

definition endsWith :: "string \<Rightarrow> string \<Rightarrow> bool" where
  "endsWith s suf = startsWith (rev s) (rev suf)"

fun includesStr :: "string \<Rightarrow> string \<Rightarrow> bool" where
  "includesStr [] sub = (sub = [])"
| "includesStr (c # cs) sub = (startsWith (c # cs) sub \<or> includesStr cs sub)"

text \<open>
  \<open>s.trim()\<close> removes white space and line terminators from both ends; these are the
  ones among the code units up to 0xFF.
\<close>

definition isWhitespace :: "char \<Rightarrow> bool" where
  "isWhitespace c = (c = CHR 0x09 \<or> c = CHR 0x0A \<or> c = CHR 0x0B \<or> c = CHR 0x0C
     \<or> c = CHR 0x0D \<or> c = CHR 0x20 \<or> c = CHR 0xA0)"

definition trim :: "string \<Rightarrow> string" where
  "trim s = rev (dropWhile isWhitespace (rev (dropWhile isWhitespace s)))"

text \<open>\<open>xs.indexOf(x)\<close>: the first index of \<open>x\<close>, or \<open>-1\<close>.\<close>

fun indexOf :: "'a list \<Rightarrow> 'a \<Rightarrow> int" where
  "indexOf [] x = - 1"
| "indexOf (y # ys) x =
     (if y = x then 0 else (let i = indexOf ys x in if i < 0 then - 1 else i + 1))"

text \<open>\<open>xs.slice(start)\<close>: a negative \<open>start\<close> counts from the end.\<close>

definition slice :: "'a list \<Rightarrow> int \<Rightarrow> 'a list" where
  "slice xs start =
     (if start < 0 then drop (nat (int (length xs) + start)) xs else drop (nat start) xs)"

section \<open>ArgumentAssembler\<close>

text \<open>
  An optional property of an options object: the property is missing, it is there with
  the value \<open>undefined\<close>, or it holds a value.
\<close>

datatype 'a field = Absent | Undefined | Given 'a

text \<open>An element of the trailing command vector: \<open>null\<close>, \<open>undefined\<close> or a string.\<close>

datatype arg = Null | Undef | Str string

record WitnessOptions =
  step :: "string field"
  outfile :: "string field"
  attestations :: "string list field"
  key :: "string field"
  enableArchivista :: "bool field"
  enableSigstore :: "bool field"
  extensions :: "(string \<times> string field) list"

text \<open>
  Modelled from the spec: \<open>src/attestation/assembleWitnessArgs.js\<close> is not among the
  sources (only its tests are), so the assembler follows section 4.1 of the
  specification, item by item. The extension fields are the pairs of a flag name and a
  value, in configured order. The specification gives no names for the boolean flags;
  they are named after the inputs of section 6.
\<close>

definition separator :: string where
  "separator = ''--''"

fun flagToken :: "string \<Rightarrow> string field \<Rightarrow> string list" where
  "flagToken pre (Given v) = (if v = [] then [] else [pre @ v])"
| "flagToken pre Absent = []"
| "flagToken pre Undefined = []"

fun boolToken :: "string \<Rightarrow> bool field \<Rightarrow> string list" where
  "boolToken name (Given b) = (if b then [''--'' @ name @ ''=true''] else [])"
| "boolToken name Absent = []"
| "boolToken name Undefined = []"

fun attestationTokens :: "string list field \<Rightarrow> string list" where
  "attestationTokens (Given names) = map (\<lambda>a. ''-a='' @ a) names"
| "attestationTokens Absent = []"
| "attestationTokens Undefined = []"

definition longFlag :: "string \<Rightarrow> string" where
  "longFlag name = ''--'' @ name @ ''=''"

fun extensionTokens :: "(string \<times> string field) list \<Rightarrow> string list" where
  "extensionTokens [] = []"
| "extensionTokens ((name, v) # rest) = flagToken (longFlag name) v @ extensionTokens rest"

definition optionTokens :: "WitnessOptions \<Rightarrow> string list" where
  "optionTokens opts =
     flagToken ''-s='' (step opts)
     @ attestationTokens (attestations opts)
     @ flagToken ''-o='' (outfile opts)
     @ flagToken (longFlag ''signer-file-key-path'') (key opts)
     @ boolToken ''enable-archivista'' (enableArchivista opts)
     @ boolToken ''enable-sigstore'' (enableSigstore opts)
     @ extensionTokens (extensions opts)"

fun argString :: "arg \<Rightarrow> string" where
  "argString Null = []"
| "argString Undef = []"
| "argString (Str s) = s"

definition assembleWitnessArgs :: "WitnessOptions \<Rightarrow> arg list \<Rightarrow> string list" where
  "assembleWitnessArgs opts trailingCommand =
     [''run''] @ optionTokens opts @ [separator] @ map argString trailingCommand"

text \<open>The elements of an output that stand before its first separator token.\<close>

definition beforeSeparator :: "string list \<Rightarrow> string list" where
  "beforeSeparator out = take (nat (indexOf out separator)) out"

subsection \<open>Vocabulary of the claims about the assembler\<close>

text \<open>An optional field that is absent, \<open>undefined\<close> or the empty string.\<close>

fun blank :: "string field \<Rightarrow> bool" where
  "blank Absent = True"
| "blank Undefined = True"
| "blank (Given v) = (v = [])"

text \<open>
  The flag names of the extension fields are taken to be distinct, free of \<open>=\<close> and
  different from the long flags that the other fields own.
\<close>

definition reservedFlagNames :: "string list" where
  "reservedFlagNames = [''signer-file-key-path'', ''enable-archivista'', ''enable-sigstore'']"

definition flagNameOk :: "string \<Rightarrow> bool" where
  "flagNameOk n = (CHR ''='' \<notin> set n \<and> n \<notin> set reservedFlagNames)"

definition extensionNamesOk :: "(string \<times> string field) list \<Rightarrow> bool" where
  "extensionNamesOk es = (distinct (map fst es) \<and> list_all flagNameOk (map fst es))"

text \<open>The end-to-end example of the specification.\<close>

definition exampleOptions :: WitnessOptions where
  "exampleOptions = \<lparr>step = Given ''build'', outfile = Given ''attestation.json'',
     attestations = Absent, key = Absent, enableArchivista = Absent,
     enableSigstore = Absent, extensions = []\<rparr>"

definition exampleCommand :: "arg list" where
  "exampleCommand = [Str ''/bin/sh'', Str ''-c'', Str ''make build docker_tag=v1.2.3'']"

text \<open>Two options objects with blank and with given fields.\<close>

definition witnessOptions :: WitnessOptions where
  "witnessOptions = \<lparr>step = Given ''build'', outfile = Given [],
     attestations = Given [''git'', ''github''], key = Undefined,
     enableArchivista = Given True, enableSigstore = Absent,
     extensions = [(''archivista-server'', Given []), (''fulcio'', Given ''https://f.example'')]\<rparr>"

definition noStepOptions :: WitnessOptions where
  "noStepOptions = witnessOptions\<lparr>step := Given []\<rparr>"

section \<open>BinaryResolver: \<open>src/core/witnessDownloader.js\<close>\<close>

text \<open>
  The resolver talks to the outside through \<open>@actions/exec\<close>, \<open>@actions/tool-cache\<close>,
  \<open>@actions/core\<close>, \<open>fetch\<close>, \<open>fs\<close>, \<open>path\<close> and \<open>os\<close>. A \<open>world\<close> fixes what each of
  these calls answers during one invocation. The calls that run a process, reach the
  network or change the file system (\<open>exec.getExecOutput\<close>, \<open>fetch\<close> and
  \<open>response.json\<close>, \<open>tc.downloadTool\<close>, \<open>fs.mkdirSync\<close>, \<open>tc.extractTar\<close>,
  \<open>fs.chmodSync\<close>, \<open>tc.cacheFile\<close>, \<open>fs.promises.rm\<close>) either return a value or throw
  (\<open>Inl\<close>). \<open>tc.find\<close> returns the empty string when the cache has no entry;
  \<open>core.getInput\<close>, \<open>core.addPath\<close> and the logging calls return; \<open>path.join\<close> and
  \<open>path.dirname\<close> are the functions of Node, left open; \<open>randomSuffix\<close> is what
  \<open>Math.random().toString(36).substring(7)\<close> gives. The \<open>state\<close> records, in order,
  the calls made, the directories handed to \<open>core.addPath\<close>, and the temporary
  directories that exist. Log texts are kept without their leading pictograph.

  An error is a JavaScript \<open>Error\<close> with its message. Of the parsed body of the
  response the code reads \<open>tag_name\<close>, \<open>Given\<close> when it is a string; calling
  \<open>startsWith\<close> on anything else throws a \<open>TypeError\<close>.
\<close>

datatype exn = JsError string

fun message :: "exn \<Rightarrow> string" where
  "message (JsError m) = m"

record execOutput =
  exitCode :: int
  stdout :: string
  stderr :: string

record release =
  tag_name :: "string field"

record response =
  status :: nat
  json :: "exn + release"

text \<open>\<open>response.ok\<close> of the Fetch API: the status is in the range 200 to 299.\<close>

definition ok :: "response \<Rightarrow> bool" where
  "ok r = (200 \<le> status r \<and> status r \<le> 299)"

record world =
  whichOutcome :: "exn + execOutput"
  getInput :: "string \<Rightarrow> string"
  fetchOutcome :: "exn + response"
  tcFind :: "string \<Rightarrow> string \<Rightarrow> string"
  tcDownloadTool :: "string \<Rightarrow> exn + string"
  fsMkdirSync :: "string \<Rightarrow> exn + unit"
  tcExtractTar :: "string \<Rightarrow> string \<Rightarrow> exn + string"
  fsChmodSync :: "string \<Rightarrow> string \<Rightarrow> exn + unit"
  tcCacheFile :: "string \<Rightarrow> string \<Rightarrow> string \<Rightarrow> string \<Rightarrow> exn + string"
  fsRm :: "string \<Rightarrow> exn + unit"
  platform :: string
  osTmpdir :: string
  randomSuffix :: string
  pathJoin :: "string \<Rightarrow> string \<Rightarrow> string"
  pathDirname :: "string \<Rightarrow> string"

datatype call =
    GetExecOutput string "string list"
  | GetInput string
  | Fetch string
  | TcFind string string
  | DownloadTool string
  | MkdirSync string
  | ExtractTar string string
  | ChmodSync string string
  | CacheFile string string string string
  | AddPath string
  | Rm string
  | Info string
  | Warning string
  | Debug string

record state =
  calls :: "call list"
  searchPath :: "string list"
  tempDirs :: "string list"

definition emit :: "call \<Rightarrow> state \<Rightarrow> state" where
  "emit c st = st\<lparr>calls := calls st @ [c]\<rparr>"

text \<open>\<open>core.addPath(dir)\<close>.\<close>

definition addPath :: "string \<Rightarrow> state \<Rightarrow> state" where
  "addPath dir st = (emit (AddPath dir) st)\<lparr>searchPath := searchPath st @ [dir]\<rparr>"

text \<open>The decimal digits of a number, as a template literal prints it.\<close>

fun showNat :: "nat \<Rightarrow> string" where
  "showNat n =
     (if n < 10 then [char_of (48 + n)]
      else showNat (n div 10) @ [char_of (48 + n mod 10)])"

declare showNat.simps [simp del]

subsection \<open>\<open>checkWitnessInPath\<close>\<close>

text \<open>The body of the \<open>try\<close> block: what it returns, or the error it throws.\<close>

definition checkWitnessInPath_try :: "world \<Rightarrow> state \<Rightarrow> (exn + string option) \<times> state" where
  "checkWitnessInPath_try w st =
     (let st1 = emit (GetExecOutput ''which'' [''witness'']) st in
      case whichOutcome w of
        Inl error \<Rightarrow> (Inl error, st1)
      | Inr result \<Rightarrow>
          if exitCode result = 0 \<and> trim (stdout result) \<noteq> []
          then (Inr (Some (trim (stdout result))), st1)
          else (Inr None, st1))"

definition checkWitnessInPath :: "world \<Rightarrow> state \<Rightarrow> (exn + string option) \<times> state" where
  "checkWitnessInPath w st =
     (case checkWitnessInPath_try w st of
        (Inl error, st1) \<Rightarrow>
          (Inr None,
           emit (Debug (''Error checking for witness in PATH: '' @ message error)) st1)
      | (Inr found, st1) \<Rightarrow> (Inr found, st1))"

subsection \<open>\<open>getLatestVersion\<close>\<close>

definition releasesUrl :: string where
  "releasesUrl = ''https://api.github.com/repos/in-toto/witness/releases/latest''"

definition getLatestVersion_try :: "world \<Rightarrow> state \<Rightarrow> (exn + string) \<times> state" where
  "getLatestVersion_try w st =
     (let st1 = emit (Fetch releasesUrl) st in
      case fetchOutcome w of
        Inl error \<Rightarrow> (Inl error, st1)
      | Inr resp \<Rightarrow>
          if \<not> ok resp
          then (Inl (JsError (''GitHub API returned '' @ showNat (status resp))), st1)
          else
            (case json resp of
               Inl error \<Rightarrow> (Inl error, st1)
             | Inr data \<Rightarrow>
                 (case tag_name data of
                    Given tag \<Rightarrow>
                      (let version = (if startsWith tag ''v'' then drop 1 tag else tag) in
                       (Inr version,
                        emit (Info (''Latest witness version from GitHub: '' @ version)) st1))
                  | Absent \<Rightarrow> (Inl (JsError ''TypeError''), st1)
                  | Undefined \<Rightarrow> (Inl (JsError ''TypeError''), st1))))"

definition getLatestVersion :: "world \<Rightarrow> state \<Rightarrow> (exn + string) \<times> state" where
  "getLatestVersion w st =
     (case getLatestVersion_try w st of
        (Inl error, st1) \<Rightarrow>
          (Inr ''0.10.1'',
           emit (Warning (''Failed to fetch latest witness version: '' @ message error)) st1)
      | (Inr version, st1) \<Rightarrow> (Inr version, st1))"

subsection \<open>\<open>downloadWitnessVersion\<close>\<close>

definition archiveFile :: "string \<Rightarrow> string \<Rightarrow> string" where
  "archiveFile plat version =
     (if plat = ''win32'' then ''witness_'' @ version @ ''_windows_amd64.tar.gz''
      else if plat = ''darwin'' then ''witness_'' @ version @ ''_darwin_amd64.tar.gz''
      else ''witness_'' @ version @ ''_linux_amd64.tar.gz'')"

definition downloadUrl :: "string \<Rightarrow> string \<Rightarrow> string" where
  "downloadUrl plat version =
     ''https://github.com/in-toto/witness/releases/download/v'' @ version @ ''/''
       @ archiveFile plat version"

definition tempDirOf :: "world \<Rightarrow> string" where
  "tempDirOf w = pathJoin w (osTmpdir w) (''witness-extract-'' @ randomSuffix w)"

text \<open>The last two steps: the clean-up of the temporary directory, and the return.\<close>

definition cleanUpAndReturn :: "world \<Rightarrow> string \<Rightarrow> string \<Rightarrow> state \<Rightarrow> (exn + string) \<times> state" where
  "cleanUpAndReturn w tempDir cachedPath st =
     (let st1 = emit (Rm tempDir) st;
          st2 = (case fsRm w tempDir of
                   Inl error \<Rightarrow>
                     emit (Warning (''Failed to clean up temporary directory: ''
                       @ message error)) st1
                 | Inr u \<Rightarrow>
                     emit (Info ''Cleaned up temporary directory'')
                       (st1\<lparr>tempDirs := removeAll tempDir (tempDirs st1)\<rparr>))
      in (Inr (if endsWith cachedPath ''witness'' then cachedPath
               else pathJoin w cachedPath ''witness''), st2))"

text \<open>From the extracted directory on: make executable, cache, clean up.\<close>

definition installExtracted :: "world \<Rightarrow> string \<Rightarrow> string \<Rightarrow> string \<Rightarrow> state \<Rightarrow> (exn + string) \<times> state" where
  "installExtracted w version tempDir extractedDir st =
     (let witnessExePath = pathJoin w extractedDir ''witness'';
          st1 = emit (Info (''Witness executable path: '' @ witnessExePath)) st;
          st2 = emit (ChmodSync witnessExePath ''755'') st1;
          st3 = (case fsChmodSync w witnessExePath ''755'' of
                   Inl error \<Rightarrow>
                     emit (Warning (''Failed to make witness executable: '' @ message error)) st2
                 | Inr u \<Rightarrow> emit (Info ''Made witness executable'') st2);
          st4 = emit (CacheFile witnessExePath ''witness'' ''witness'' version) st3
      in case tcCacheFile w witnessExePath ''witness'' ''witness'' version of
           Inl error \<Rightarrow> (Inl (JsError (''Failed to cache witness: '' @ message error)), st4)
         | Inr cachedPath \<Rightarrow>
             (let st5 = emit (Info (''Cached witness at: '' @ cachedPath)) st4;
                  st6 = addPath (pathDirname w cachedPath) st5;
                  st7 = emit (Info (''Added witness to PATH: '' @ pathDirname w cachedPath)) st6
              in cleanUpAndReturn w tempDir cachedPath st7))"

definition downloadWitnessVersion :: "world \<Rightarrow> string \<Rightarrow> state \<Rightarrow> (exn + string) \<times> state" where
  "downloadWitnessVersion w version st =
     (let url = downloadUrl (platform w) version;
          st1 = emit (Info (''Downloading witness from: '' @ url)) st;
          st2 = emit (DownloadTool url) st1
      in case tcDownloadTool w url of
           Inl error \<Rightarrow> (Inl (JsError (''Failed to download witness: '' @ message error)), st2)
         | Inr downloadPath \<Rightarrow>
             (let st3 = emit (Info (''Downloaded witness archive to: '' @ downloadPath)) st2;
                  tempDir = tempDirOf w;
                  st4 = emit (MkdirSync tempDir) st3
              in case fsMkdirSync w tempDir of
                   Inl error \<Rightarrow> (Inl error, st4)
                 | Inr u \<Rightarrow>
                     (let st5 = emit (Info (''Created temporary directory: '' @ tempDir))
                                  (st4\<lparr>tempDirs := List.insert tempDir (tempDirs st4)\<rparr>);
                          st6 = emit (ExtractTar downloadPath tempDir) st5
                      in case tcExtractTar w downloadPath tempDir of
                           Inl error \<Rightarrow>
                             (Inl (JsError (''Failed to extract witness archive: ''
                                @ message error)), st6)
                         | Inr extractedDir \<Rightarrow>
                             installExtracted w version tempDir extractedDir
                               (emit (Info (''Extracted witness to: '' @ extractedDir)) st6))))"

subsection \<open>\<open>getWitnessPath\<close>\<close>

text \<open>Steps 2 to 4: choose the version, look in the cache, download.\<close>

definition chooseVersion :: "world \<Rightarrow> state \<Rightarrow> (exn + string) \<times> state" where
  "chooseVersion w st =
     (let st1 = emit (GetInput ''witness_version'') st;
          inputVersion = getInput w ''witness_version''
      in if inputVersion \<noteq> [] then (Inr inputVersion, st1) else getLatestVersion w st1)"

definition fromCacheOrDownload :: "world \<Rightarrow> state \<Rightarrow> (exn + string) \<times> state" where
  "fromCacheOrDownload w st =
     (case chooseVersion w st of
        (Inl error, st1) \<Rightarrow> (Inl error, st1)
      | (Inr version, st1) \<Rightarrow>
          (let st2 = emit (Info (''Using witness version: '' @ version)) st1;
               st3 = emit (TcFind ''witness'' version) st2;
               cachedPath = tcFind w ''witness'' version
           in if cachedPath \<noteq> []
              then
                (let witnessExePath = pathJoin w cachedPath ''witness'';
                     st4 = emit (Info (''Found cached witness at: '' @ witnessExePath)) st3
                 in (Inr witnessExePath, addPath cachedPath st4))
              else
                downloadWitnessVersion w version
                  (emit (Info (''Witness version '' @ version
                     @ '' not found in cache, downloading now...'')) st3)))"

definition getWitnessPath :: "world \<Rightarrow> state \<Rightarrow> (exn + string) \<times> state" where
  "getWitnessPath w st =
     (case checkWitnessInPath w st of
        (Inl error, st1) \<Rightarrow> (Inl error, st1)
      | (Inr None, st1) \<Rightarrow> fromCacheOrDownload w st1
      | (Inr (Some pathWitness), st1) \<Rightarrow>
          if pathWitness \<noteq> []
          then (Inr pathWitness, emit (Info (''Found witness in PATH: '' @ pathWitness)) st1)
          else fromCacheOrDownload w st1)"

definition downloadAndSetupWitness :: "world \<Rightarrow> state \<Rightarrow> (exn + string) \<times> state" where
  "downloadAndSetupWitness w st = getWitnessPath w st"

subsection \<open>Observing an invocation\<close>

text \<open>The calls an invocation adds to the record, and the kinds of call the claims name.\<close>

definition newCalls :: "state \<Rightarrow> state \<Rightarrow> call list" where
  "newCalls st st' = drop (length (calls st)) (calls st')"

fun isCacheLookup :: "call \<Rightarrow> bool" where
  "isCacheLookup (TcFind tool version) = True"
| "isCacheLookup c = False"

fun isFetch :: "call \<Rightarrow> bool" where
  "isFetch (Fetch url) = True"
| "isFetch c = False"

fun isDownload :: "call \<Rightarrow> bool" where
  "isDownload (DownloadTool url) = True"
| "isDownload c = False"

fun isRm :: "call \<Rightarrow> bool" where
  "isRm (Rm dir) = True"
| "isRm c = False"

text \<open>The \<open>which\<close> lookup exits with 0 and its trimmed output is not empty.\<close>

definition pathHit :: "world \<Rightarrow> bool" where
  "pathHit w =
     (case whichOutcome w of
        Inl error \<Rightarrow> False
      | Inr result \<Rightarrow> exitCode result = 0 \<and> trim (stdout result) \<noteq> [])"

text \<open>
  The calls that reach the network or the tool cache: the metadata fetch, the cache
  lookup and the download, in the order in which they were made.
\<close>

definition keyCalls :: "call list \<Rightarrow> call list" where
  "keyCalls tr = filter (\<lambda>c. isFetch c \<or> isCacheLookup c \<or> isDownload c) tr"

text \<open>The version a call to the tool cache names.\<close>

fun versionArgs :: "call \<Rightarrow> string list" where
  "versionArgs (TcFind tool version) = [version]"
| "versionArgs (CacheFile file name tool version) = [version]"
| "versionArgs c = []"

subsection \<open>Concrete worlds\<close>

text \<open>
  The mocks of \<open>__tests__/witnessDownloader.test.js\<close>: witness is not in the PATH,
  nothing is cached, the latest release is tagged \<open>v0.10.1\<close>, download, extraction
  and caching succeed. \<open>testJoin\<close> and \<open>testDirname\<close> stand for \<open>path.join\<close> and
  \<open>path.dirname\<close> on normalised absolute paths. The other worlds change one answer.
\<close>

definition testJoin :: "string \<Rightarrow> string \<Rightarrow> string" where
  "testJoin a b = a @ ''/'' @ b"

definition testDirname :: "string \<Rightarrow> string" where
  "testDirname p = rev (drop 1 (dropWhile (\<lambda>c. c \<noteq> CHR ''/'') (rev p)))"

definition testWorld :: world where
  "testWorld = \<lparr>
     whichOutcome = Inr \<lparr>exitCode = 1, stdout = [], stderr = []\<rparr>,
     getInput = (\<lambda>name. []),
     fetchOutcome = Inr \<lparr>status = 200, json = Inr \<lparr>tag_name = Given ''v0.10.1''\<rparr>\<rparr>,
     tcFind = (\<lambda>tool version. []),
     tcDownloadTool = (\<lambda>url. Inr ''/tmp/witness.tar.gz''),
     fsMkdirSync = (\<lambda>dir. Inr ()),
     tcExtractTar = (\<lambda>file dir. Inr ''/tmp/witness-extract''),
     fsChmodSync = (\<lambda>file mode. Inr ()),
     tcCacheFile = (\<lambda>file name tool version.
       Inr (''/opt/hostedtoolcache/witness/'' @ version @ ''/x64'')),
     fsRm = (\<lambda>dir. Inr ()),
     platform = ''linux'',
     osTmpdir = ''/tmp'',
     randomSuffix = ''k3x9q'',
     pathJoin = testJoin,
     pathDirname = testDirname\<rparr>"

definition initialState :: state where
  "initialState = \<lparr>calls = [], searchPath = [], tempDirs = []\<rparr>"

definition inPathWorld :: world where
  "inPathWorld = testWorld\<lparr>whichOutcome :=
     Inr \<lparr>exitCode = 0, stdout = ''/usr/local/bin/witness'' @ [CHR 0x0A], stderr = []\<rparr>\<rparr>"

definition blankOutputWorld :: world where
  "blankOutputWorld = testWorld\<lparr>whichOutcome :=
     Inr \<lparr>exitCode = 0, stdout = [CHR 0x20, CHR 0x0A], stderr = []\<rparr>\<rparr>"

definition whichThrowsWorld :: world where
  "whichThrowsWorld = testWorld\<lparr>whichOutcome := Inl (JsError ''Command failed'')\<rparr>"

definition plainTagWorld :: world where
  "plainTagWorld = testWorld\<lparr>fetchOutcome :=
     Inr \<lparr>status = 200, json = Inr \<lparr>tag_name = Given ''0.9.2''\<rparr>\<rparr>\<rparr>"

definition fetchThrowsWorld :: world where
  "fetchThrowsWorld = testWorld\<lparr>fetchOutcome := Inl (JsError ''fetch failed'')\<rparr>"

definition rateLimitedWorld :: world where
  "rateLimitedWorld = testWorld\<lparr>fetchOutcome :=
     Inr \<lparr>status = 403, json = Inr \<lparr>tag_name = Absent\<rparr>\<rparr>\<rparr>"

definition pinnedVersionWorld :: world where
  "pinnedVersionWorld = testWorld\<lparr>getInput :=
     (\<lambda>name. if name = ''witness_version'' then ''0.9.0'' else [])\<rparr>"

definition cachedWorld :: world where
  "cachedWorld = testWorld\<lparr>
     getInput := (\<lambda>name. if name = ''witness_version'' then ''0.10.1'' else []),
     tcFind := (\<lambda>tool version. ''/opt/hostedtoolcache/witness/0.10.1/x64'')\<rparr>"

definition extractFailsWorld :: world where
  "extractFailsWorld = testWorld\<lparr>tcExtractTar :=
     (\<lambda>file dir. Inl (JsError ''tar exited with code 2''))\<rparr>"

definition cacheFailsWorld :: world where
  "cacheFailsWorld = testWorld\<lparr>tcCacheFile :=
     (\<lambda>file name tool version. Inl (JsError ''ENOSPC: no space left on device''))\<rparr>"

definition chmodFailsWorld :: world where
  "chmodFailsWorld = testWorld\<lparr>fsChmodSync :=
     (\<lambda>file mode. Inl (JsError ''EPERM: operation not permitted, chmod''))\<rparr>"

definition mkdirFailsWorld :: world where
  "mkdirFailsWorld = testWorld\<lparr>fsMkdirSync :=
     (\<lambda>dir. Inl (JsError ''EACCES: permission denied, mkdir''))\<rparr>"

section \<open>Facts about the helpers\<close>

lemma indexOf_append_fresh:
  "x \<notin> set pre \<Longrightarrow> indexOf (pre @ x # rest) x = int (length pre)"
  by (induction pre) (auto simp: Let_def)

lemma startsWith_iff: "startsWith s p \<longleftrightarrow> (\<exists>r. s = p @ r)"
  by (induction s p rule: startsWith.induct) auto

lemma startsWith_append [simp]: "startsWith (p @ r) p"
  by (simp add: startsWith_iff)

lemma includesStr_here: "includesStr (sub @ q) sub"
proof (cases "sub @ q")
  case Nil
  then show ?thesis by simp
next
  case (Cons c cs)
  have "startsWith (sub @ q) sub" by simp
  then show ?thesis by (simp add: Cons)
qed

lemma includesStr_append: "includesStr (p @ sub @ q) sub"
  by (induction p) (simp_all add: includesStr_here)

lemma flagToken_length:
  "2 \<le> length pre \<Longrightarrow> t \<in> set (flagToken pre v) \<Longrightarrow> 3 \<le> length t"
  by (cases v) (auto split: if_splits simp: Suc_le_eq length_greater_0_conv [symmetric]
      simp del: length_greater_0_conv)

lemma flagToken_no_separator:
  "2 \<le> length pre \<Longrightarrow> separator \<notin> set (flagToken pre v)"
  using flagToken_length [of pre separator v] by (auto simp: separator_def)

lemma boolToken_no_separator: "separator \<notin> set (boolToken name v)"
  by (cases v) (auto simp: separator_def)

lemma attestationTokens_no_separator: "separator \<notin> set (attestationTokens v)"
  by (cases v) (auto simp: separator_def)

lemma longFlag_length: "2 \<le> length (longFlag name)"
  by (simp add: longFlag_def)

lemma extensionTokens_no_separator: "separator \<notin> set (extensionTokens es)"
  by (induction es rule: extensionTokens.induct)
     (simp_all add: flagToken_no_separator longFlag_length)

lemma optionTokens_no_separator: "separator \<notin> set (optionTokens opts)"
  by (simp add: optionTokens_def flagToken_no_separator longFlag_length
      boolToken_no_separator attestationTokens_no_separator extensionTokens_no_separator)

lemma head_no_separator: "separator \<notin> set (''run'' # optionTokens opts)"
  using optionTokens_no_separator by (simp add: separator_def)

lemma assemble_split:
  "assembleWitnessArgs opts C
     = (''run'' # optionTokens opts) @ separator # map argString C"
  by (simp add: assembleWitnessArgs_def)

lemma indexOf_separator:
  "indexOf (assembleWitnessArgs opts C) separator = 1 + int (length (optionTokens opts))"
  unfolding assemble_split
  by (subst indexOf_append_fresh [OF head_no_separator]) simp

lemma beforeSeparator_assemble:
  "beforeSeparator (assembleWitnessArgs opts C) = ''run'' # optionTokens opts"
  unfolding beforeSeparator_def indexOf_separator by (simp add: assemble_split nat_add_distrib)

lemma flagToken_cases:
  "flagToken pre v = (if blank v then [] else [pre @ (case v of Given s \<Rightarrow> s | _ \<Rightarrow> [])])"
  by (cases v) simp_all

lemma flagToken_blank [simp]: "blank v \<Longrightarrow> flagToken pre v = []"
  by (simp add: flagToken_cases)

lemma startsWith_name_eq:
  "CHR ''='' \<notin> set n \<Longrightarrow> CHR ''='' \<notin> set m \<Longrightarrow>
     startsWith (n @ CHR ''='' # r) (m @ [CHR ''='']) \<Longrightarrow> n = m"
proof (induction n arbitrary: m)
  case Nil
  then show ?case by (cases m) auto
next
  case (Cons c n)
  then show ?case by (cases m) auto
qed

lemma startsWith_longFlag:
  "CHR ''='' \<notin> set n \<Longrightarrow> CHR ''='' \<notin> set m \<Longrightarrow>
     startsWith (longFlag n @ r) (longFlag m) \<Longrightarrow> n = m"
  using startsWith_name_eq [of n m r] by (simp add: longFlag_def)

lemma count_separator:
  "count_list (assembleWitnessArgs opts C) separator
     = Suc (count_list (map argString C) separator)"
proof -
  define pre where "pre = ''run'' # optionTokens opts"
  have "count_list pre separator = 0"
    unfolding pre_def by (rule count_notin [OF head_no_separator])
  moreover have "assembleWitnessArgs opts C = pre @ separator # map argString C"
    unfolding pre_def by (rule assemble_split)
  ultimately show ?thesis by simp
qed

lemma filter_flagToken_own:
  "filter (\<lambda>t. startsWith t pre) (flagToken pre v) = flagToken pre v"
  by (cases v) simp_all

lemma filter_flagToken_other:
  "(\<And>s. \<not> P (pre @ s)) \<Longrightarrow> filter P (flagToken pre v) = []"
  by (cases v) simp_all

lemma filter_a_attestations:
  "filter (\<lambda>t. startsWith t ''-a='') (attestationTokens v) = attestationTokens v"
  by (cases v) (simp_all add: filter_id_conv)

lemma filter_a_bool: "filter (\<lambda>t. startsWith t ''-a='') (boolToken name v) = []"
  by (cases v) simp_all

lemma filter_a_extensions: "filter (\<lambda>t. startsWith t ''-a='') (extensionTokens es) = []"
  by (induction es rule: extensionTokens.induct) (simp_all add: filter_flagToken_other longFlag_def)

lemma filter_a_options:
  "filter (\<lambda>t. startsWith t ''-a='') (''run'' # optionTokens opts)
     = attestationTokens (attestations opts)"
  by (simp add: optionTokens_def filter_flagToken_other filter_a_attestations filter_a_bool
      filter_a_extensions longFlag_def)

lemma example_output:
  "assembleWitnessArgs exampleOptions exampleCommand
     = [''run'', ''-s=build'', ''-o=attestation.json'', ''--'',
        ''/bin/sh'', ''-c'', ''make build docker_tag=v1.2.3'']"
  by (simp add: assembleWitnessArgs_def optionTokens_def exampleOptions_def
      exampleCommand_def separator_def)

lemma filter_s_attestations:
  "filter (\<lambda>t. startsWith t ''-s='') (attestationTokens v) = []"
  by (cases v) (simp_all add: filter_empty_conv)

lemma filter_s_bool: "filter (\<lambda>t. startsWith t ''-s='') (boolToken name v) = []"
  by (cases v) simp_all

lemma filter_s_extensions: "filter (\<lambda>t. startsWith t ''-s='') (extensionTokens es) = []"
  by (induction es rule: extensionTokens.induct) (simp_all add: filter_flagToken_other longFlag_def)

lemma filter_s_options:
  "filter (\<lambda>t. startsWith t ''-s='') (''run'' # optionTokens opts)
     = flagToken ''-s='' (step opts)"
  by (simp add: optionTokens_def filter_flagToken_own filter_flagToken_other
      filter_s_attestations filter_s_bool filter_s_extensions longFlag_def)

lemma filter_o_attestations:
  "filter (\<lambda>t. startsWith t ''-o='') (attestationTokens v) = []"
  by (cases v) (simp_all add: filter_empty_conv)

lemma filter_o_bool: "filter (\<lambda>t. startsWith t ''-o='') (boolToken name v) = []"
  by (cases v) simp_all

lemma filter_o_extensions: "filter (\<lambda>t. startsWith t ''-o='') (extensionTokens es) = []"
  by (induction es rule: extensionTokens.induct) (simp_all add: filter_flagToken_other longFlag_def)

lemma filter_o_options:
  "filter (\<lambda>t. startsWith t ''-o='') (''run'' # optionTokens opts)
     = flagToken ''-o='' (outfile opts)"
  by (simp add: optionTokens_def filter_flagToken_own filter_flagToken_other
      filter_o_attestations filter_o_bool filter_o_extensions longFlag_def)

lemma long_attestations:
  "filter (\<lambda>t. startsWith t (longFlag n)) (attestationTokens v) = []"
  by (cases v) (simp_all add: filter_empty_conv longFlag_def)

lemma long_short:
  "c \<noteq> CHR ''-'' \<Longrightarrow>
     filter (\<lambda>t. startsWith t (longFlag n)) (flagToken [CHR ''-'', c, CHR ''=''] v) = []"
  by (simp add: filter_flagToken_other longFlag_def)

lemma long_bool:
  assumes "CHR ''='' \<notin> set n" "CHR ''='' \<notin> set m" "n \<noteq> m"
  shows "filter (\<lambda>t. startsWith t (longFlag n)) (boolToken m v) = []"
proof -
  have "\<not> startsWith (''--'' @ m @ ''=true'') (longFlag n)"
    using startsWith_longFlag [of m n "''true''"] assms by (auto simp: longFlag_def)
  then show ?thesis by (cases v) simp_all
qed

lemma long_flag:
  assumes "CHR ''='' \<notin> set n" "CHR ''='' \<notin> set m" "n \<noteq> m"
  shows "filter (\<lambda>t. startsWith t (longFlag n)) (flagToken (longFlag m) v) = []"
  using startsWith_longFlag [of m n] assms by (auto intro!: filter_flagToken_other)

lemma long_extensions:
  assumes "CHR ''='' \<notin> set n" "list_all flagNameOk (map fst es)"
    "\<forall>(m, v) \<in> set es. m = n \<longrightarrow> blank v"
  shows "filter (\<lambda>t. startsWith t (longFlag n)) (extensionTokens es) = []"
  using assms
proof (induction es rule: extensionTokens.induct)
  case 1
  then show ?case by simp
next
  case (2 name v rest)
  have "filter (\<lambda>t. startsWith t (longFlag n)) (flagToken (longFlag name) v) = []"
  proof (cases "name = n")
    case True
    then have "blank v" using "2.prems" by simp
    then show ?thesis by simp
  next
    case False
    then show ?thesis using long_flag [of n name v] "2.prems" by (simp add: flagNameOk_def)
  qed
  then show ?case using 2 by simp
qed

lemma long_options:
  assumes "CHR ''='' \<notin> set n" and "extensionNamesOk (extensions opts)"
    and "n \<noteq> ''enable-archivista''" and "n \<noteq> ''enable-sigstore''"
    and "n = ''signer-file-key-path'' \<longrightarrow> blank (key opts)"
    and "\<forall>(m, v) \<in> set (extensions opts). m = n \<longrightarrow> blank v"
  shows "filter (\<lambda>t. startsWith t (longFlag n)) (''run'' # optionTokens opts) = []"
proof -
  have k: "filter (\<lambda>t. startsWith t (longFlag n))
      (flagToken (longFlag ''signer-file-key-path'') (key opts)) = []"
  proof (cases "n = ''signer-file-key-path''")
    case True
    then show ?thesis using assms(5) by simp
  next
    case False
    then show ?thesis using long_flag [of n "''signer-file-key-path''"] assms(1) by simp
  qed
  have e: "filter (\<lambda>t. startsWith t (longFlag n)) (extensionTokens (extensions opts)) = []"
    using long_extensions [OF assms(1) _ assms(6)] assms(2) by (simp add: extensionNamesOk_def)
  have s: "filter (\<lambda>t. startsWith t (longFlag n)) (flagToken ''-s='' (step opts)) = []"
    using long_short [of "CHR ''s''"] by simp
  have out: "filter (\<lambda>t. startsWith t (longFlag n)) (flagToken ''-o='' (outfile opts)) = []"
    using long_short [of "CHR ''o''"] by simp
  have r: "\<not> startsWith ''run'' (longFlag n)" by (simp add: longFlag_def)
  show ?thesis
    using k e s out r long_bool [OF assms(1) _ assms(3)] long_bool [OF assms(1) _ assms(4)]
    by (simp add: optionTokens_def long_attestations)
qed

lemma indexOf_step:
  "s \<noteq> [] \<Longrightarrow> step opts = Given s \<Longrightarrow>
     indexOf (assembleWitnessArgs opts C) (''-s='' @ s) = 1"
  by (simp add: assembleWitnessArgs_def optionTokens_def Let_def)

lemma count_filter: "P x \<Longrightarrow> count_list (filter P xs) x = count_list xs x"
  by (induction xs) auto

lemma extension_name_ok:
  "extensionNamesOk es \<Longrightarrow> (n, v) \<in> set es \<Longrightarrow> flagNameOk n"
  by (force simp: extensionNamesOk_def list_all_iff)

section \<open>Claims about the assembler\<close>

text \<open>
  C1. For every options object and every trailing command vector \<open>C\<close>, also one with
  \<open>null\<close> or \<open>undefined\<close> elements, the part of the output that starts just after the
  separator token equals \<open>C\<close> element by element and in order, \<open>null\<close> and \<open>undefined\<close>
  replaced by the empty string and every string unchanged; it is as long as \<open>C\<close>.
\<close>

theorem payload_after_separator:
  "slice (assembleWitnessArgs opts C) (indexOf (assembleWitnessArgs opts C) separator + 1)
     = map (\<lambda>a. case a of Null \<Rightarrow> [] | Undef \<Rightarrow> [] | Str s \<Rightarrow> s) C
   \<and> length (slice (assembleWitnessArgs opts C)
        (indexOf (assembleWitnessArgs opts C) separator + 1)) = length C"
proof -
  have same: "argString = (\<lambda>a. case a of Null \<Rightarrow> [] | Undef \<Rightarrow> [] | Str s \<Rightarrow> s)"
    by (rule ext) (simp split: arg.split)
  have "slice (assembleWitnessArgs opts C) (indexOf (assembleWitnessArgs opts C) separator + 1)
      = map argString C"
    unfolding indexOf_separator by (simp add: slice_def assemble_split nat_add_distrib)
  then show ?thesis by (simp add: same)
qed

text \<open>
  C2. The output is, in this order: \<open>run\<close>, the step flag, one \<open>-a=\<close> token per
  attestation in sequence order, the outfile flag, the key flag, the extension flags, the
  separator, the payload. No element before the payload other than the separator equals
  \<open>--\<close>, so the separator stands exactly once before the payload and right in front
  of it; the whole output holds \<open>--\<close> once more than the payload does, the payload
  being passed through unfiltered. For the options \<open>{step: "build", outfile:
  "attestation.json"}\<close> and the command \<open>["/bin/sh", "-c", "make build
  docker_tag=v1.2.3"]\<close> the first element is \<open>run\<close>, the output holds \<open>-s=build\<close> and
  \<open>-o=attestation.json\<close>, holds \<open>--\<close> once, and its tail after \<open>--\<close> is that command.
\<close>

theorem assemble_fixed_order:
  "hd (assembleWitnessArgs opts C) = ''run''
   \<and> assembleWitnessArgs opts C
       = beforeSeparator (assembleWitnessArgs opts C) @ [separator] @ map argString C
   \<and> beforeSeparator (assembleWitnessArgs opts C)
       = [''run''] @ flagToken ''-s='' (step opts)
         @ (case attestations opts of Given names \<Rightarrow> map (\<lambda>a. ''-a='' @ a) names
            | Absent \<Rightarrow> [] | Undefined \<Rightarrow> [])
         @ flagToken ''-o='' (outfile opts)
         @ flagToken ''--signer-file-key-path='' (key opts)
         @ boolToken ''enable-archivista'' (enableArchivista opts)
         @ boolToken ''enable-sigstore'' (enableSigstore opts)
         @ extensionTokens (extensions opts)
   \<and> filter (\<lambda>t. startsWith t ''-a='') (beforeSeparator (assembleWitnessArgs opts C))
       = (case attestations opts of Given names \<Rightarrow> map (\<lambda>a. ''-a='' @ a) names
          | Absent \<Rightarrow> [] | Undefined \<Rightarrow> [])
   \<and> count_list (beforeSeparator (assembleWitnessArgs opts C)) separator = 0
   \<and> count_list (assembleWitnessArgs opts C) separator
       = 1 + count_list (map argString C) separator
   \<and> assembleWitnessArgs exampleOptions exampleCommand ! 0 = ''run''
   \<and> ''-s=build'' \<in> set (assembleWitnessArgs exampleOptions exampleCommand)
   \<and> ''-o=attestation.json'' \<in> set (assembleWitnessArgs exampleOptions exampleCommand)
   \<and> count_list (assembleWitnessArgs exampleOptions exampleCommand) ''--'' = 1
   \<and> slice (assembleWitnessArgs exampleOptions exampleCommand)
        (indexOf (assembleWitnessArgs exampleOptions exampleCommand) ''--'' + 1)
       = [''/bin/sh'', ''-c'', ''make build docker_tag=v1.2.3'']"
proof -
  have att: "attestationTokens (attestations opts)
      = (case attestations opts of Given names \<Rightarrow> map (\<lambda>a. ''-a='' @ a) names
         | Absent \<Rightarrow> [] | Undefined \<Rightarrow> [])"
    by (cases "attestations opts") simp_all
  have b: "beforeSeparator (assembleWitnessArgs opts C) = ''run'' # optionTokens opts"
    by (rule beforeSeparator_assemble)
  have 1: "hd (assembleWitnessArgs opts C) = ''run''"
    by (simp add: assembleWitnessArgs_def)
  have 2: "assembleWitnessArgs opts C
       = beforeSeparator (assembleWitnessArgs opts C) @ [separator] @ map argString C"
    unfolding b by (simp add: assembleWitnessArgs_def)
  have 3: "beforeSeparator (assembleWitnessArgs opts C)
       = [''run''] @ flagToken ''-s='' (step opts)
         @ (case attestations opts of Given names \<Rightarrow> map (\<lambda>a. ''-a='' @ a) names
            | Absent \<Rightarrow> [] | Undefined \<Rightarrow> [])
         @ flagToken ''-o='' (outfile opts)
         @ flagToken ''--signer-file-key-path='' (key opts)
         @ boolToken ''enable-archivista'' (enableArchivista opts)
         @ boolToken ''enable-sigstore'' (enableSigstore opts)
         @ extensionTokens (extensions opts)"
    unfolding b att [symmetric] by (simp add: optionTokens_def longFlag_def)
  have 4: "filter (\<lambda>t. startsWith t ''-a='') (beforeSeparator (assembleWitnessArgs opts C))
       = (case attestations opts of Given names \<Rightarrow> map (\<lambda>a. ''-a='' @ a) names
          | Absent \<Rightarrow> [] | Undefined \<Rightarrow> [])"
    unfolding b att [symmetric] by (rule filter_a_options)
  have 5: "count_list (beforeSeparator (assembleWitnessArgs opts C)) separator = 0"
    unfolding b by (rule count_notin [OF head_no_separator])
  have 6: "count_list (assembleWitnessArgs opts C) separator
       = 1 + count_list (map argString C) separator"
    by (simp add: count_separator)
  have 7: "assembleWitnessArgs exampleOptions exampleCommand ! 0 = ''run''"
    and 8: "''-s=build'' \<in> set (assembleWitnessArgs exampleOptions exampleCommand)"
    and 9: "''-o=attestation.json'' \<in> set (assembleWitnessArgs exampleOptions exampleCommand)"
    and 10: "count_list (assembleWitnessArgs exampleOptions exampleCommand) ''--'' = 1"
    and 11: "slice (assembleWitnessArgs exampleOptions exampleCommand)
        (indexOf (assembleWitnessArgs exampleOptions exampleCommand) ''--'' + 1)
       = [''/bin/sh'', ''-c'', ''make build docker_tag=v1.2.3'']"
    unfolding example_output by (simp_all add: slice_def)
  from 1 2 3 4 5 6 7 8 9 10 11 show ?thesis by blast
qed

text \<open>
  The claim as first stated, that the separator appears exactly once in any output, fails
  for a payload that holds \<open>--\<close> itself, as \<open>git checkout -- README.md\<close> does.
\<close>

theorem separator_twice:
  "count_list (assembleWitnessArgs exampleOptions
      [Str ''git'', Str ''checkout'', Str ''--'', Str ''README.md'']) ''--'' = 2"
  by (simp add: assembleWitnessArgs_def optionTokens_def exampleOptions_def separator_def)

text \<open>
  C3. With extension flag names that are distinct, free of \<open>=\<close> and different from the
  long flags of the other fields: for every options object in which \<open>step\<close>,
  \<open>outfile\<close>, \<open>key\<close> or an extension field is absent, \<open>undefined\<close> or the empty
  string, no element before the separator is a token of that field's flag; and for every
  non-empty step value \<open>s\<close> exactly one element before the separator is a step-flag
  token, it equals \<open>-s=s\<close>, its index is 1, which is less than the index of the
  separator. The whole output holds \<open>-s=s\<close> once more than the payload does.
\<close>

theorem option_flags_before_separator:
  assumes "extensionNamesOk (extensions opts)"
  shows
  "(blank (step opts) \<longrightarrow>
      filter (\<lambda>t. startsWith t ''-s='') (beforeSeparator (assembleWitnessArgs opts C)) = [])
   \<and> (blank (outfile opts) \<longrightarrow>
      filter (\<lambda>t. startsWith t ''-o='') (beforeSeparator (assembleWitnessArgs opts C)) = [])
   \<and> (blank (key opts) \<longrightarrow>
      filter (\<lambda>t. startsWith t ''--signer-file-key-path='')
        (beforeSeparator (assembleWitnessArgs opts C)) = [])
   \<and> (\<forall>(n, v) \<in> set (extensions opts). blank v \<longrightarrow>
      filter (\<lambda>t. startsWith t (''--'' @ n @ ''=''))
        (beforeSeparator (assembleWitnessArgs opts C)) = [])
   \<and> (\<forall>s. s \<noteq> [] \<and> step opts = Given s \<longrightarrow>
      filter (\<lambda>t. startsWith t ''-s='') (beforeSeparator (assembleWitnessArgs opts C))
        = [''-s='' @ s]
      \<and> count_list (beforeSeparator (assembleWitnessArgs opts C)) (''-s='' @ s) = 1
      \<and> indexOf (assembleWitnessArgs opts C) (''-s='' @ s) = 1
      \<and> indexOf (assembleWitnessArgs opts C) (''-s='' @ s)
          < indexOf (assembleWitnessArgs opts C) separator
      \<and> count_list (assembleWitnessArgs opts C) (''-s='' @ s)
          = 1 + count_list (map argString C) (''-s='' @ s))"
proof -
  let ?B = "beforeSeparator (assembleWitnessArgs opts C)"
  have b: "?B = ''run'' # optionTokens opts"
    by (rule beforeSeparator_assemble)
  have st: "filter (\<lambda>t. startsWith t ''-s='') ?B = flagToken ''-s='' (step opts)"
    unfolding b by (rule filter_s_options)
  have 1: "blank (step opts) \<longrightarrow> filter (\<lambda>t. startsWith t ''-s='') ?B = []"
    by (simp add: st)
  have ou: "filter (\<lambda>t. startsWith t ''-o='') ?B = flagToken ''-o='' (outfile opts)"
    unfolding b by (rule filter_o_options)
  have 2: "blank (outfile opts) \<longrightarrow> filter (\<lambda>t. startsWith t ''-o='') ?B = []"
    by (simp add: ou)
  have ok: "\<forall>(m, v) \<in> set (extensions opts). flagNameOk m"
    using assms extension_name_ok by blast
  have 3: "blank (key opts) \<longrightarrow>
      filter (\<lambda>t. startsWith t ''--signer-file-key-path='') ?B = []"
  proof
    assume k: "blank (key opts)"
    have u: "\<forall>(m, v) \<in> set (extensions opts). m = ''signer-file-key-path'' \<longrightarrow> blank v"
      using ok by (auto simp: flagNameOk_def reservedFlagNames_def)
    have k': "''signer-file-key-path'' = ''signer-file-key-path'' \<longrightarrow> blank (key opts)"
      using k by simp
    have "filter (\<lambda>t. startsWith t (longFlag ''signer-file-key-path''))
        (''run'' # optionTokens opts) = []"
      by (rule long_options [OF _ assms _ _ k' u]) simp_all
    then show "filter (\<lambda>t. startsWith t ''--signer-file-key-path='') ?B = []"
      unfolding b by (simp add: longFlag_def)
  qed
  have 4: "\<forall>(n, v) \<in> set (extensions opts). blank v \<longrightarrow>
      filter (\<lambda>t. startsWith t (''--'' @ n @ ''='')) ?B = []"
  proof (clarify)
    fix n v
    assume mem: "(n, v) \<in> set (extensions opts)" and bl: "blank v"
    have nok: "flagNameOk n" using ok mem by blast
    have d: "distinct (map fst (extensions opts))"
      using assms by (simp add: extensionNamesOk_def)
    have u: "\<forall>(m, v') \<in> set (extensions opts). m = n \<longrightarrow> blank v'"
    proof (clarify)
      fix v'
      assume "(n, v') \<in> set (extensions opts)"
      then have "v' = v" using eq_key_imp_eq_value [OF d _ mem] by simp
      then show "blank v'" using bl by simp
    qed
    have e: "CHR ''='' \<notin> set n" and r1: "n \<noteq> ''enable-archivista''"
      and r2: "n \<noteq> ''enable-sigstore''" and r3: "n \<noteq> ''signer-file-key-path''"
      using nok by (auto simp: flagNameOk_def reservedFlagNames_def)
    have k: "n = ''signer-file-key-path'' \<longrightarrow> blank (key opts)"
      using r3 by simp
    have "filter (\<lambda>t. startsWith t (longFlag n)) (''run'' # optionTokens opts) = []"
      by (rule long_options [OF e assms r1 r2 k u])
    then show "filter (\<lambda>t. startsWith t (''--'' @ n @ ''='')) ?B = []"
      unfolding b by (simp add: longFlag_def)
  qed
  have 5: "\<forall>s. s \<noteq> [] \<and> step opts = Given s \<longrightarrow>
      filter (\<lambda>t. startsWith t ''-s='') ?B = [''-s='' @ s]
      \<and> count_list ?B (''-s='' @ s) = 1
      \<and> indexOf (assembleWitnessArgs opts C) (''-s='' @ s) = 1
      \<and> indexOf (assembleWitnessArgs opts C) (''-s='' @ s)
          < indexOf (assembleWitnessArgs opts C) separator
      \<and> count_list (assembleWitnessArgs opts C) (''-s='' @ s)
          = 1 + count_list (map argString C) (''-s='' @ s)"
  proof (intro allI impI, elim conjE)
    fix s
    assume ne: "s \<noteq> []" and given: "step opts = Given s"
    have f: "filter (\<lambda>t. startsWith t ''-s='') ?B = [''-s='' @ s]"
      using ne given by (simp add: st)
    have "count_list (filter (\<lambda>t. startsWith t ''-s='') ?B) (''-s='' @ s)
        = count_list ?B (''-s='' @ s)"
      by (rule count_filter) simp
    then have c: "count_list ?B (''-s='' @ s) = 1"
      unfolding f by simp
    have i: "indexOf (assembleWitnessArgs opts C) (''-s='' @ s) = 1"
      using ne given by (rule indexOf_step)
    have "0 < length (optionTokens opts)"
      using ne given by (simp add: optionTokens_def)
    then have lt: "indexOf (assembleWitnessArgs opts C) (''-s='' @ s)
        < indexOf (assembleWitnessArgs opts C) separator"
      unfolding i indexOf_separator by simp
    have "separator \<noteq> ''-s='' @ s"
      by (simp add: separator_def)
    then have tl: "count_list (separator # map argString C) (''-s='' @ s)
        = count_list (map argString C) (''-s='' @ s)"
      by simp
    have c': "count_list (''run'' # optionTokens opts) (''-s='' @ s) = 1"
      using c unfolding b .
    have "count_list (assembleWitnessArgs opts C) (''-s='' @ s)
        = count_list (''run'' # optionTokens opts) (''-s='' @ s)
          + count_list (separator # map argString C) (''-s='' @ s)"
      unfolding assemble_split by (rule count_list_append)
    then have w: "count_list (assembleWitnessArgs opts C) (''-s='' @ s)
          = 1 + count_list (map argString C) (''-s='' @ s)"
      unfolding c' tl .
    from f c i lt w show "filter (\<lambda>t. startsWith t ''-s='') ?B = [''-s='' @ s]
      \<and> count_list ?B (''-s='' @ s) = 1
      \<and> indexOf (assembleWitnessArgs opts C) (''-s='' @ s) = 1
      \<and> indexOf (assembleWitnessArgs opts C) (''-s='' @ s)
          < indexOf (assembleWitnessArgs opts C) separator
      \<and> count_list (assembleWitnessArgs opts C) (''-s='' @ s)
          = 1 + count_list (map argString C) (''-s='' @ s)"
      by blast
  qed
  from 1 2 3 4 5 show ?thesis by blast
qed

theorem option_flags_before_separator_witness:
  "extensionNamesOk (extensions witnessOptions)
   \<and> blank (outfile witnessOptions)
   \<and> filter (\<lambda>t. startsWith t ''-o='')
        (beforeSeparator (assembleWitnessArgs witnessOptions [Str ''echo'', Str ''-s=build''])) = []
   \<and> blank (key witnessOptions)
   \<and> filter (\<lambda>t. startsWith t ''--signer-file-key-path='')
        (beforeSeparator (assembleWitnessArgs witnessOptions [Str ''echo'', Str ''-s=build''])) = []
   \<and> (''archivista-server'', Given []) \<in> set (extensions witnessOptions)
   \<and> filter (\<lambda>t. startsWith t ''--archivista-server='')
        (beforeSeparator (assembleWitnessArgs witnessOptions [Str ''echo'', Str ''-s=build''])) = []
   \<and> step witnessOptions = Given ''build''
   \<and> filter (\<lambda>t. startsWith t ''-s='')
        (beforeSeparator (assembleWitnessArgs witnessOptions [Str ''echo'', Str ''-s=build'']))
       = [''-s=build'']
   \<and> indexOf (assembleWitnessArgs witnessOptions [Str ''echo'', Str ''-s=build'']) ''-s=build'' = 1
   \<and> count_list (assembleWitnessArgs witnessOptions [Str ''echo'', Str ''-s=build'']) ''-s=build'' = 2
   \<and> blank (step noStepOptions)
   \<and> filter (\<lambda>t. startsWith t ''-s='')
        (beforeSeparator (assembleWitnessArgs noStepOptions [Str ''echo'', Str ''-s=build''])) = []"
proof -
  have ok1: "extensionNamesOk (extensions witnessOptions)"
    by (simp add: witnessOptions_def extensionNamesOk_def flagNameOk_def reservedFlagNames_def)
  have ok2: "extensionNamesOk (extensions noStepOptions)"
    by (simp add: noStepOptions_def witnessOptions_def extensionNamesOk_def flagNameOk_def
        reservedFlagNames_def)
  have f: "outfile witnessOptions = Given []" "key witnessOptions = Undefined"
    "step witnessOptions = Given ''build''" "step noStepOptions = Given []"
    "(''archivista-server'', Given []) \<in> set (extensions witnessOptions)"
    by (simp_all add: witnessOptions_def noStepOptions_def)
  let ?C = "[Str ''echo'', Str ''-s=build'']"
  let ?B = "beforeSeparator (assembleWitnessArgs witnessOptions ?C)"
  note t1 = option_flags_before_separator [OF ok1, of ?C]
  note t2 = option_flags_before_separator [OF ok2, of ?C]
  have a: "filter (\<lambda>t. startsWith t ''-o='') ?B = []"
    using t1 [THEN conjunct2, THEN conjunct1] f(1) by simp
  have b: "filter (\<lambda>t. startsWith t ''--signer-file-key-path='') ?B = []"
    using t1 [THEN conjunct2, THEN conjunct2, THEN conjunct1] f(2) by simp
  have c: "filter (\<lambda>t. startsWith t ''--archivista-server='') ?B = []"
    using bspec [OF t1 [THEN conjunct2, THEN conjunct2, THEN conjunct2, THEN conjunct1] f(5)]
    by simp
  note d = t1 [THEN conjunct2, THEN conjunct2, THEN conjunct2, THEN conjunct2, THEN spec,
      of "''build''"]
  have d1: "filter (\<lambda>t. startsWith t ''-s='') ?B = [''-s=build'']"
    and d2: "indexOf (assembleWitnessArgs witnessOptions ?C) ''-s=build'' = 1"
    and d3: "count_list (assembleWitnessArgs witnessOptions ?C) ''-s=build'' = 2"
    using d f(3) by simp_all
  have e: "filter (\<lambda>t. startsWith t ''-s='')
      (beforeSeparator (assembleWitnessArgs noStepOptions ?C)) = []"
    using t2 [THEN conjunct1] f(4) by simp
  show ?thesis
    using ok1 f a b c d1 d2 d3 e by simp
qed

text \<open>
  The claim as first stated counts over the whole output; the payload is not filtered,
  so a command that holds \<open>-s=build\<close> makes it two.
\<close>

theorem step_flag_twice:
  "count_list (assembleWitnessArgs exampleOptions [Str ''echo'', Str ''-s=build'']) ''-s=build'' = 2"
  by (simp add: assembleWitnessArgs_def optionTokens_def exampleOptions_def separator_def)

section \<open>Claims about the resolver\<close>

lemma trim_empty_iff: "trim s = [] \<longleftrightarrow> list_all isWhitespace s"
proof -
  have "trim s = [] \<longleftrightarrow> dropWhile isWhitespace (rev (dropWhile isWhitespace s)) = []"
    by (simp add: trim_def)
  also have "\<dots> \<longleftrightarrow> (\<forall>c \<in> set (rev (dropWhile isWhitespace s)). isWhitespace c)"
    by (rule dropWhile_eq_Nil_conv)
  also have "\<dots> \<longleftrightarrow> (\<forall>c \<in> set (dropWhile isWhitespace s). isWhitespace c)"
    by (simp only: set_rev)
  also have "\<dots> \<longleftrightarrow> dropWhile isWhitespace s = []"
  proof
    assume a: "\<forall>c \<in> set (dropWhile isWhitespace s). isWhitespace c"
    show "dropWhile isWhitespace s = []"
    proof (rule ccontr)
      assume ne: "dropWhile isWhitespace s \<noteq> []"
      then have "\<not> isWhitespace (hd (dropWhile isWhitespace s))"
        by (rule hd_dropWhile)
      moreover have "hd (dropWhile isWhitespace s) \<in> set (dropWhile isWhitespace s)"
        using ne by (rule hd_in_set)
      ultimately show False using a by blast
    qed
  next
    assume "dropWhile isWhitespace s = []"
    then show "\<forall>c \<in> set (dropWhile isWhitespace s). isWhitespace c"
      by (simp only: list.set ball_empty)
  qed
  also have "\<dots> \<longleftrightarrow> list_all isWhitespace s"
    by (simp only: dropWhile_eq_Nil_conv list_all_iff)
  finally show ?thesis .
qed

lemma newCalls_compose:
  "calls b = calls a @ x \<Longrightarrow> calls c = calls b @ y \<Longrightarrow> newCalls a c = x @ y"
  by (simp add: newCalls_def)

lemma checkWitnessInPath_hit:
  "whichOutcome w = Inr result \<Longrightarrow> exitCode result = 0 \<Longrightarrow> trim (stdout result) \<noteq> [] \<Longrightarrow>
     checkWitnessInPath w st
       = (Inr (Some (trim (stdout result))), emit (GetExecOutput ''which'' [''witness'']) st)"
  by (simp add: checkWitnessInPath_def checkWitnessInPath_try_def)

lemma checkWitnessInPath_miss:
  "\<not> pathHit w \<Longrightarrow>
     fst (checkWitnessInPath w st) = Inr None
     \<and> searchPath (snd (checkWitnessInPath w st)) = searchPath st
     \<and> tempDirs (snd (checkWitnessInPath w st)) = tempDirs st
     \<and> (\<exists>tr. calls (snd (checkWitnessInPath w st)) = calls st @ tr \<and> keyCalls tr = []
           \<and> concat (map versionArgs tr) = [])"
  by (auto simp: checkWitnessInPath_def checkWitnessInPath_try_def pathHit_def emit_def
      keyCalls_def split: sum.splits)

lemma getLatestVersion_result:
  "\<exists>v tr. fst (getLatestVersion w st) = Inr v
     \<and> searchPath (snd (getLatestVersion w st)) = searchPath st
     \<and> tempDirs (snd (getLatestVersion w st)) = tempDirs st
     \<and> calls (snd (getLatestVersion w st)) = calls st @ tr
     \<and> keyCalls tr = [Fetch releasesUrl] \<and> concat (map versionArgs tr) = []"
  by (auto simp: getLatestVersion_def getLatestVersion_try_def emit_def keyCalls_def Let_def
      split: sum.splits field.splits)

lemma getLatestVersion_state_free:
  "fst (getLatestVersion w st) = fst (getLatestVersion w st')"
  by (auto simp: getLatestVersion_def getLatestVersion_try_def Let_def
      split: sum.splits field.splits)

lemma keyCalls_append: "keyCalls (a @ b) = keyCalls a @ keyCalls b"
  by (simp add: keyCalls_def)

lemma downloadWitnessVersion_calls:
  "\<exists>tr. calls (snd (downloadWitnessVersion w v st)) = calls st @ tr
     \<and> keyCalls tr = [DownloadTool (downloadUrl (platform w) v)]
     \<and> set (concat (map versionArgs tr)) \<subseteq> {v}"
  by (simp add: downloadWitnessVersion_def installExtracted_def cleanUpAndReturn_def
      emit_def addPath_def keyCalls_def Let_def split: sum.splits)

lemma chooseVersion_calls:
  "\<exists>v st1 tr. chooseVersion w st = (Inr v, st1)
     \<and> (if getInput w ''witness_version'' \<noteq> [] then v = getInput w ''witness_version''
         else fst (getLatestVersion w st) = Inr v)
     \<and> calls st1 = calls st @ tr \<and> searchPath st1 = searchPath st
     \<and> tempDirs st1 = tempDirs st
     \<and> keyCalls tr = (if getInput w ''witness_version'' = [] then [Fetch releasesUrl] else [])
     \<and> concat (map versionArgs tr) = []"
proof (cases "getInput w ''witness_version'' = []")
  case False
  then show ?thesis
    by (simp add: chooseVersion_def emit_def keyCalls_def)
next
  case True
  let ?st = "emit (GetInput ''witness_version'') st"
  obtain v tr where r: "fst (getLatestVersion w ?st) = Inr v"
    "searchPath (snd (getLatestVersion w ?st)) = searchPath ?st"
    "tempDirs (snd (getLatestVersion w ?st)) = tempDirs ?st"
    "calls (snd (getLatestVersion w ?st)) = calls ?st @ tr"
    "keyCalls tr = [Fetch releasesUrl]" "concat (map versionArgs tr) = []"
    using getLatestVersion_result [of w ?st] by blast
  have c: "chooseVersion w st = (Inr v, snd (getLatestVersion w ?st))"
    using True r(1) by (simp add: chooseVersion_def prod_eq_iff)
  have l: "fst (getLatestVersion w st) = Inr v"
    using r(1) getLatestVersion_state_free [of w st ?st] by simp
  have k: "calls (snd (getLatestVersion w ?st)) = calls st @ (GetInput ''witness_version'' # tr)"
    using r(4) by (simp add: emit_def)
  have kc: "keyCalls (GetInput ''witness_version'' # tr) = [Fetch releasesUrl]"
    using r(5) by (simp add: keyCalls_def)
  have va: "concat (map versionArgs (GetInput ''witness_version'' # tr)) = []"
    using r(6) by simp
  have sp: "searchPath (snd (getLatestVersion w ?st)) = searchPath st"
    "tempDirs (snd (getLatestVersion w ?st)) = tempDirs st"
    using r(2,3) by (simp_all add: emit_def)
  show ?thesis
    using True c l k kc va sp by auto
qed

lemma fromCacheOrDownload_calls:
  "\<exists>v tr. (if getInput w ''witness_version'' \<noteq> [] then v = getInput w ''witness_version''
            else fst (getLatestVersion w st) = Inr v)
     \<and> calls (snd (fromCacheOrDownload w st)) = calls st @ tr
     \<and> keyCalls tr
         = (if getInput w ''witness_version'' = [] then [Fetch releasesUrl] else [])
           @ [TcFind ''witness'' v]
           @ (if tcFind w ''witness'' v = [] then [DownloadTool (downloadUrl (platform w) v)]
              else [])
     \<and> set (concat (map versionArgs tr)) \<subseteq> {v}
     \<and> (tcFind w ''witness'' v \<noteq> [] \<longrightarrow>
          fst (fromCacheOrDownload w st) = Inr (pathJoin w (tcFind w ''witness'' v) ''witness'')
          \<and> searchPath (snd (fromCacheOrDownload w st))
              = searchPath st @ [tcFind w ''witness'' v]
          \<and> AddPath (tcFind w ''witness'' v) \<in> set tr)"
proof -
  obtain v st1 tr1 where cv: "chooseVersion w st = (Inr v, st1)"
    and ver: "if getInput w ''witness_version'' \<noteq> [] then v = getInput w ''witness_version''
         else fst (getLatestVersion w st) = Inr v"
    and c1: "calls st1 = calls st @ tr1" and sp1: "searchPath st1 = searchPath st"
    and k1: "keyCalls tr1
        = (if getInput w ''witness_version'' = [] then [Fetch releasesUrl] else [])"
    and v1: "concat (map versionArgs tr1) = []"
    using chooseVersion_calls [of w st] by blast
  let ?st3 = "emit (TcFind ''witness'' v) (emit (Info (''Using witness version: '' @ v)) st1)"
  let ?mid = "[Info (''Using witness version: '' @ v), TcFind ''witness'' v]"
  have c3: "calls ?st3 = calls st @ tr1 @ ?mid"
    using c1 by (simp add: emit_def)
  have km: "keyCalls ?mid = [TcFind ''witness'' v]"
    by (simp add: keyCalls_def)
  have vm: "set (concat (map versionArgs (tr1 @ ?mid))) \<subseteq> {v}"
    using v1 by simp
  show ?thesis
  proof (cases "tcFind w ''witness'' v = []")
    case False
    let ?exe = "pathJoin w (tcFind w ''witness'' v) ''witness''"
    let ?tl = "[Info (''Found cached witness at: '' @ ?exe), AddPath (tcFind w ''witness'' v)]"
    have r: "fromCacheOrDownload w st
        = (Inr ?exe, addPath (tcFind w ''witness'' v)
            (emit (Info (''Found cached witness at: '' @ ?exe)) ?st3))"
      using False by (simp add: fromCacheOrDownload_def cv Let_def)
    have c: "calls (snd (fromCacheOrDownload w st)) = calls st @ (tr1 @ ?mid) @ ?tl"
      unfolding r using c3 by (simp add: emit_def addPath_def)
    have kt: "keyCalls ?tl = []"
      by (simp add: keyCalls_def)
    have k: "keyCalls ((tr1 @ ?mid) @ ?tl)
        = (if getInput w ''witness_version'' = [] then [Fetch releasesUrl] else [])
          @ [TcFind ''witness'' v]"
      unfolding keyCalls_append k1 km kt by simp
    have va: "set (concat (map versionArgs ((tr1 @ ?mid) @ ?tl))) \<subseteq> {v}"
      using v1 by simp
    have sp: "searchPath (snd (fromCacheOrDownload w st))
        = searchPath st @ [tcFind w ''witness'' v]"
      unfolding r using sp1 by (simp add: emit_def addPath_def)
    have m: "AddPath (tcFind w ''witness'' v) \<in> set ((tr1 @ ?mid) @ ?tl)"
      by simp
    have f: "fst (fromCacheOrDownload w st) = Inr ?exe"
      unfolding r by simp
    show ?thesis
      using False ver c k va sp m f by (intro exI [of _ v] exI [of _ "(tr1 @ ?mid) @ ?tl"]) simp
  next
    case True
    let ?st4 = "emit (Info (''Witness version '' @ v
        @ '' not found in cache, downloading now...'')) ?st3"
    let ?note = "[Info (''Witness version '' @ v @ '' not found in cache, downloading now...'')]"
    have r: "fromCacheOrDownload w st = downloadWitnessVersion w v ?st4"
      using True by (simp add: fromCacheOrDownload_def cv Let_def)
    obtain tr2 where d: "calls (snd (downloadWitnessVersion w v ?st4)) = calls ?st4 @ tr2"
      and kd: "keyCalls tr2 = [DownloadTool (downloadUrl (platform w) v)]"
      and vd: "set (concat (map versionArgs tr2)) \<subseteq> {v}"
      using downloadWitnessVersion_calls [of w v ?st4] by blast
    have c4: "calls ?st4 = calls st @ (tr1 @ ?mid) @ ?note"
      using c3 by (simp add: emit_def)
    have c: "calls (snd (fromCacheOrDownload w st)) = calls st @ ((tr1 @ ?mid) @ ?note) @ tr2"
      unfolding r d c4 by simp
    have kn: "keyCalls ?note = []"
      by (simp add: keyCalls_def)
    have k: "keyCalls (((tr1 @ ?mid) @ ?note) @ tr2)
        = (if getInput w ''witness_version'' = [] then [Fetch releasesUrl] else [])
          @ [TcFind ''witness'' v] @ [DownloadTool (downloadUrl (platform w) v)]"
      unfolding keyCalls_append k1 km kn kd by simp
    have va: "set (concat (map versionArgs (((tr1 @ ?mid) @ ?note) @ tr2))) \<subseteq> {v}"
      using v1 vd by simp
    show ?thesis
      using True ver c k va
      by (intro exI [of _ v] exI [of _ "((tr1 @ ?mid) @ ?note) @ tr2"]) simp
  qed
qed

lemma getWitnessPath_miss:
  "\<not> pathHit w \<Longrightarrow>
     getWitnessPath w st = fromCacheOrDownload w (snd (checkWitnessInPath w st))"
  by (auto simp: getWitnessPath_def checkWitnessInPath_def checkWitnessInPath_try_def
      pathHit_def split: sum.splits)

text \<open>
  C8. \<open>checkWitnessInPath\<close> never propagates an error: whatever the \<open>which\<close> lookup
  does, it returns; it returns the trimmed output when the exit code is 0 and the trimmed
  output is not empty, and \<open>null\<close> when the exit code is not 0, when the output is
  empty or only whitespace, and when the lookup throws.
\<close>

theorem checkWitnessInPath_total:
  "(\<exists>found. fst (checkWitnessInPath w st) = Inr found)
   \<and> (\<forall>result. whichOutcome w = Inr result \<and> exitCode result = 0
          \<and> trim (stdout result) \<noteq> [] \<longrightarrow>
        fst (checkWitnessInPath w st) = Inr (Some (trim (stdout result))))
   \<and> (\<forall>result. whichOutcome w = Inr result \<and> exitCode result \<noteq> 0 \<longrightarrow>
        fst (checkWitnessInPath w st) = Inr None)
   \<and> (\<forall>result. whichOutcome w = Inr result \<and> list_all isWhitespace (stdout result) \<longrightarrow>
        fst (checkWitnessInPath w st) = Inr None)
   \<and> (\<forall>error. whichOutcome w = Inl error \<longrightarrow> fst (checkWitnessInPath w st) = Inr None)"
proof -
  have 1: "\<exists>found. fst (checkWitnessInPath w st) = Inr found"
    by (simp add: checkWitnessInPath_def checkWitnessInPath_try_def Let_def split: sum.splits)
  have 2: "\<forall>result. whichOutcome w = Inr result \<and> exitCode result = 0
          \<and> trim (stdout result) \<noteq> [] \<longrightarrow>
        fst (checkWitnessInPath w st) = Inr (Some (trim (stdout result)))"
    by (simp add: checkWitnessInPath_def checkWitnessInPath_try_def)
  have 3: "\<forall>result. whichOutcome w = Inr result \<and> exitCode result \<noteq> 0 \<longrightarrow>
        fst (checkWitnessInPath w st) = Inr None"
    by (simp add: checkWitnessInPath_def checkWitnessInPath_try_def)
  have 4: "\<forall>result. whichOutcome w = Inr result \<and> list_all isWhitespace (stdout result) \<longrightarrow>
        fst (checkWitnessInPath w st) = Inr None"
    by (simp add: checkWitnessInPath_def checkWitnessInPath_try_def trim_empty_iff)
  have 5: "\<forall>error. whichOutcome w = Inl error \<longrightarrow> fst (checkWitnessInPath w st) = Inr None"
    by (simp add: checkWitnessInPath_def checkWitnessInPath_try_def)
  from 1 2 3 4 5 show ?thesis by blast
qed

theorem checkWitnessInPath_total_witness:
  "fst (checkWitnessInPath inPathWorld initialState) = Inr (Some ''/usr/local/bin/witness'')
   \<and> fst (checkWitnessInPath testWorld initialState) = Inr None
   \<and> fst (checkWitnessInPath blankOutputWorld initialState) = Inr None
   \<and> fst (checkWitnessInPath whichThrowsWorld initialState) = Inr None"
proof -
  let ?hit = "\<lparr>exitCode = 0, stdout = ''/usr/local/bin/witness'' @ [CHR 0x0A], stderr = []\<rparr>"
  let ?miss = "\<lparr>exitCode = 1, stdout = [], stderr = []\<rparr>"
  let ?blank = "\<lparr>exitCode = 0, stdout = [CHR 0x20, CHR 0x0A], stderr = []\<rparr>"
  have a: "whichOutcome inPathWorld = Inr ?hit \<and> exitCode ?hit = 0 \<and> trim (stdout ?hit) \<noteq> []"
    by (simp add: inPathWorld_def testWorld_def trim_def isWhitespace_def)
  have b: "whichOutcome testWorld = Inr ?miss \<and> exitCode ?miss \<noteq> 0"
    by (simp add: testWorld_def)
  have c: "whichOutcome blankOutputWorld = Inr ?blank \<and> list_all isWhitespace (stdout ?blank)"
    by (simp add: blankOutputWorld_def testWorld_def isWhitespace_def)
  have d: "whichOutcome whichThrowsWorld = Inl (JsError ''Command failed'')"
    by (simp add: whichThrowsWorld_def testWorld_def)
  note t1 = checkWitnessInPath_total [of inPathWorld initialState]
  note t2 = checkWitnessInPath_total [of testWorld initialState]
  note t3 = checkWitnessInPath_total [of blankOutputWorld initialState]
  note t4 = checkWitnessInPath_total [of whichThrowsWorld initialState]
  have 1: "fst (checkWitnessInPath inPathWorld initialState) = Inr (Some ''/usr/local/bin/witness'')"
    using t1 [THEN conjunct2, THEN conjunct1, THEN spec, of ?hit] a
    by (simp add: trim_def isWhitespace_def)
  have 2: "fst (checkWitnessInPath testWorld initialState) = Inr None"
    using t2 [THEN conjunct2, THEN conjunct2, THEN conjunct1, THEN spec, of ?miss] b by simp
  have 3: "fst (checkWitnessInPath blankOutputWorld initialState) = Inr None"
    using t3 [THEN conjunct2, THEN conjunct2, THEN conjunct2, THEN conjunct1, THEN spec, of ?blank]
      c by simp
  have 4: "fst (checkWitnessInPath whichThrowsWorld initialState) = Inr None"
    using t4 [THEN conjunct2, THEN conjunct2, THEN conjunct2, THEN conjunct2, THEN spec,
        of "JsError ''Command failed''"] d by simp
  from 1 2 3 4 show ?thesis by blast
qed

text \<open>
  C7. \<open>getLatestVersion\<close> never throws. When the fetch succeeds with a 2xx status and
  the body holds a tag, it returns the tag without a leading \<open>v\<close>, and the tag as it is
  when it has none. On a network error, on a status outside 200 to 299, on a body that
  does not parse and on a body without a tag it returns \<open>0.10.1\<close>.
\<close>

theorem getLatestVersion_total:
  "(\<exists>version. fst (getLatestVersion w st) = Inr version)
   \<and> (\<forall>resp data rest. fetchOutcome w = Inr resp \<and> 200 \<le> status resp \<and> status resp \<le> 299
          \<and> json resp = Inr data \<and> tag_name data = Given (CHR ''v'' # rest) \<longrightarrow>
        fst (getLatestVersion w st) = Inr rest)
   \<and> (\<forall>resp data tag. fetchOutcome w = Inr resp \<and> 200 \<le> status resp \<and> status resp \<le> 299
          \<and> json resp = Inr data \<and> tag_name data = Given tag \<and> \<not> startsWith tag ''v'' \<longrightarrow>
        fst (getLatestVersion w st) = Inr tag)
   \<and> (\<forall>error. fetchOutcome w = Inl error \<longrightarrow>
        fst (getLatestVersion w st) = Inr ''0.10.1'')
   \<and> (\<forall>resp. fetchOutcome w = Inr resp \<and> (status resp < 200 \<or> 299 < status resp) \<longrightarrow>
        fst (getLatestVersion w st) = Inr ''0.10.1'')
   \<and> (\<forall>resp error. fetchOutcome w = Inr resp \<and> json resp = Inl error \<longrightarrow>
        fst (getLatestVersion w st) = Inr ''0.10.1'')
   \<and> (\<forall>resp data. fetchOutcome w = Inr resp \<and> json resp = Inr data
          \<and> (tag_name data = Absent \<or> tag_name data = Undefined) \<longrightarrow>
        fst (getLatestVersion w st) = Inr ''0.10.1'')"
proof -
  have 1: "\<exists>version. fst (getLatestVersion w st) = Inr version"
    using getLatestVersion_result [of w st] by blast
  have 2: "\<forall>resp data rest. fetchOutcome w = Inr resp \<and> 200 \<le> status resp \<and> status resp \<le> 299
          \<and> json resp = Inr data \<and> tag_name data = Given (CHR ''v'' # rest) \<longrightarrow>
        fst (getLatestVersion w st) = Inr rest"
    by (simp add: getLatestVersion_def getLatestVersion_try_def ok_def Let_def)
  have 3: "\<forall>resp data tag. fetchOutcome w = Inr resp \<and> 200 \<le> status resp \<and> status resp \<le> 299
          \<and> json resp = Inr data \<and> tag_name data = Given tag \<and> \<not> startsWith tag ''v'' \<longrightarrow>
        fst (getLatestVersion w st) = Inr tag"
    by (simp add: getLatestVersion_def getLatestVersion_try_def ok_def Let_def)
  have 4: "\<forall>error. fetchOutcome w = Inl error \<longrightarrow>
        fst (getLatestVersion w st) = Inr ''0.10.1''"
    by (simp add: getLatestVersion_def getLatestVersion_try_def Let_def)
  have 5: "\<forall>resp. fetchOutcome w = Inr resp \<and> (status resp < 200 \<or> 299 < status resp) \<longrightarrow>
        fst (getLatestVersion w st) = Inr ''0.10.1''"
    by (auto simp: getLatestVersion_def getLatestVersion_try_def ok_def Let_def)
  have 6: "\<forall>resp error. fetchOutcome w = Inr resp \<and> json resp = Inl error \<longrightarrow>
        fst (getLatestVersion w st) = Inr ''0.10.1''"
    by (auto simp: getLatestVersion_def getLatestVersion_try_def Let_def)
  have 7: "\<forall>resp data. fetchOutcome w = Inr resp \<and> json resp = Inr data
          \<and> (tag_name data = Absent \<or> tag_name data = Undefined) \<longrightarrow>
        fst (getLatestVersion w st) = Inr ''0.10.1''"
    by (auto simp: getLatestVersion_def getLatestVersion_try_def Let_def)
  from 1 2 3 4 5 6 7 show ?thesis by blast
qed

theorem getLatestVersion_total_witness:
  "fst (getLatestVersion testWorld initialState) = Inr ''0.10.1''
   \<and> fst (getLatestVersion plainTagWorld initialState) = Inr ''0.9.2''
   \<and> fst (getLatestVersion fetchThrowsWorld initialState) = Inr ''0.10.1''
   \<and> fst (getLatestVersion rateLimitedWorld initialState) = Inr ''0.10.1''"
proof -
  let ?latest = "\<lparr>status = 200, json = Inr \<lparr>tag_name = Given ''v0.10.1''\<rparr>\<rparr>"
  let ?plain = "\<lparr>status = 200, json = Inr \<lparr>tag_name = Given ''0.9.2''\<rparr>\<rparr>"
  let ?limited = "\<lparr>status = 403, json = Inr \<lparr>tag_name = Absent\<rparr>\<rparr>"
  note t1 = getLatestVersion_total [of testWorld initialState]
  note t2 = getLatestVersion_total [of plainTagWorld initialState]
  note t3 = getLatestVersion_total [of fetchThrowsWorld initialState]
  note t4 = getLatestVersion_total [of rateLimitedWorld initialState]
  have 1: "fst (getLatestVersion testWorld initialState) = Inr ''0.10.1''"
    using t1 [THEN conjunct2, THEN conjunct1, THEN spec, THEN spec, THEN spec,
        of ?latest "\<lparr>tag_name = Given ''v0.10.1''\<rparr>" "''0.10.1''"]
    by (simp add: testWorld_def)
  have 2: "fst (getLatestVersion plainTagWorld initialState) = Inr ''0.9.2''"
    using t2 [THEN conjunct2, THEN conjunct2, THEN conjunct1, THEN spec, THEN spec, THEN spec,
        of ?plain "\<lparr>tag_name = Given ''0.9.2''\<rparr>" "''0.9.2''"]
    by (simp add: plainTagWorld_def testWorld_def)
  have 3: "fst (getLatestVersion fetchThrowsWorld initialState) = Inr ''0.10.1''"
    using t3 [THEN conjunct2, THEN conjunct2, THEN conjunct2, THEN conjunct1, THEN spec,
        of "JsError ''fetch failed''"]
    by (simp add: fetchThrowsWorld_def testWorld_def)
  have 4: "fst (getLatestVersion rateLimitedWorld initialState) = Inr ''0.10.1''"
    using t4 [THEN conjunct2, THEN conjunct2, THEN conjunct2, THEN conjunct2, THEN conjunct1,
        THEN spec, of ?limited]
    by (simp add: rateLimitedWorld_def testWorld_def)
  from 1 2 3 4 show ?thesis by blast
qed

text \<open>
  C4. When the \<open>which\<close> lookup exits with 0 and its trimmed output is not empty,
  \<open>getWitnessPath\<close> returns exactly that trimmed output; the only calls of the
  invocation are the lookup and one log line, so there is no cache lookup, no metadata
  fetch and no download.
\<close>

theorem path_hit_wins:
  assumes "whichOutcome w = Inr result" and "exitCode result = 0"
    and "trim (stdout result) \<noteq> []"
  shows "fst (getWitnessPath w st) = Inr (trim (stdout result))
    \<and> newCalls st (snd (getWitnessPath w st))
        = [GetExecOutput ''which'' [''witness''],
           Info (''Found witness in PATH: '' @ trim (stdout result))]
    \<and> filter isCacheLookup (newCalls st (snd (getWitnessPath w st))) = []
    \<and> filter isFetch (newCalls st (snd (getWitnessPath w st))) = []
    \<and> filter isDownload (newCalls st (snd (getWitnessPath w st))) = []
    \<and> searchPath (snd (getWitnessPath w st)) = searchPath st"
proof -
  have r: "getWitnessPath w st
      = (Inr (trim (stdout result)),
         emit (Info (''Found witness in PATH: '' @ trim (stdout result)))
           (emit (GetExecOutput ''which'' [''witness'']) st))"
    using assms by (simp add: getWitnessPath_def checkWitnessInPath_hit)
  have n: "newCalls st (snd (getWitnessPath w st))
        = [GetExecOutput ''which'' [''witness''],
           Info (''Found witness in PATH: '' @ trim (stdout result))]"
    unfolding r by (simp add: newCalls_def emit_def)
  show ?thesis
    unfolding n unfolding r by (simp add: emit_def)
qed

theorem path_hit_wins_witness:
  "fst (getWitnessPath inPathWorld initialState) = Inr ''/usr/local/bin/witness''
   \<and> newCalls initialState (snd (getWitnessPath inPathWorld initialState))
       = [GetExecOutput ''which'' [''witness''],
          Info ''Found witness in PATH: /usr/local/bin/witness'']"
proof -
  let ?hit = "\<lparr>exitCode = 0, stdout = ''/usr/local/bin/witness'' @ [CHR 0x0A], stderr = []\<rparr>"
  have a: "whichOutcome inPathWorld = Inr ?hit"
    by (simp add: inPathWorld_def testWorld_def)
  have b: "exitCode ?hit = 0" by simp
  have t: "trim (stdout ?hit) = ''/usr/local/bin/witness''"
    by (simp add: trim_def isWhitespace_def)
  have c: "trim (stdout ?hit) \<noteq> []"
    unfolding t by simp
  show ?thesis
    using path_hit_wins [OF a b c, of initialState] unfolding t by simp
qed

lemma keyCalls_lookup: "filter isCacheLookup (keyCalls tr) = filter isCacheLookup tr"
  by (induction tr) (auto simp: keyCalls_def)

lemma keyCalls_download: "filter isDownload (keyCalls tr) = filter isDownload tr"
  by (induction tr) (auto simp: keyCalls_def)

lemma keyCalls_fetch: "filter isFetch (keyCalls tr) = filter isFetch tr"
  by (induction tr) (auto simp: keyCalls_def)

lemma downloadUrl_names_version: "includesStr (downloadUrl plat v) (''v'' @ v)"
proof -
  have "downloadUrl plat v
      = ''https://github.com/in-toto/witness/releases/download/'' @ (''v'' @ v)
        @ (''/'' @ archiveFile plat v)"
    by (simp add: downloadUrl_def)
  then show ?thesis by (simp only: includesStr_append)
qed

lemma downloadUrl_not_legacy: "\<not> includesStr (downloadUrl plat ''0.10.1'') ''v0.8.1''"
  by (simp add: downloadUrl_def archiveFile_def)

lemma getLatestVersion_tag:
  "fetchOutcome w = Inr resp \<Longrightarrow> ok resp \<Longrightarrow> json resp = Inr data \<Longrightarrow>
     tag_name data = Given tag \<Longrightarrow>
     fst (getLatestVersion w st) = Inr (if startsWith tag ''v'' then drop 1 tag else tag)"
  by (simp add: getLatestVersion_def getLatestVersion_try_def Let_def)

lemma getWitnessPath_miss_calls:
  assumes "\<not> pathHit w"
  shows "\<exists>v. (if getInput w ''witness_version'' \<noteq> [] then v = getInput w ''witness_version''
            else fst (getLatestVersion w st) = Inr v)
     \<and> keyCalls (newCalls st (snd (getWitnessPath w st)))
         = (if getInput w ''witness_version'' = [] then [Fetch releasesUrl] else [])
           @ [TcFind ''witness'' v]
           @ (if tcFind w ''witness'' v = [] then [DownloadTool (downloadUrl (platform w) v)]
              else [])
     \<and> set (concat (map versionArgs (newCalls st (snd (getWitnessPath w st))))) \<subseteq> {v}
     \<and> (tcFind w ''witness'' v \<noteq> [] \<longrightarrow>
          fst (getWitnessPath w st) = Inr (pathJoin w (tcFind w ''witness'' v) ''witness'')
          \<and> searchPath (snd (getWitnessPath w st)) = searchPath st @ [tcFind w ''witness'' v]
          \<and> AddPath (tcFind w ''witness'' v) \<in> set (newCalls st (snd (getWitnessPath w st))))"
proof -
  let ?st1 = "snd (checkWitnessInPath w st)"
  have g: "getWitnessPath w st = fromCacheOrDownload w ?st1"
    using assms by (rule getWitnessPath_miss)
  obtain tr0 where c0: "calls ?st1 = calls st @ tr0" and k0: "keyCalls tr0 = []"
    and v0: "concat (map versionArgs tr0) = []" and s0: "searchPath ?st1 = searchPath st"
    using checkWitnessInPath_miss [OF assms, of st] by blast
  obtain v tr where ver: "if getInput w ''witness_version'' \<noteq> []
        then v = getInput w ''witness_version'' else fst (getLatestVersion w ?st1) = Inr v"
    and c: "calls (snd (fromCacheOrDownload w ?st1)) = calls ?st1 @ tr"
    and k: "keyCalls tr
         = (if getInput w ''witness_version'' = [] then [Fetch releasesUrl] else [])
           @ [TcFind ''witness'' v]
           @ (if tcFind w ''witness'' v = [] then [DownloadTool (downloadUrl (platform w) v)]
              else [])"
    and va: "set (concat (map versionArgs tr)) \<subseteq> {v}"
    and hit: "tcFind w ''witness'' v \<noteq> [] \<longrightarrow>
          fst (fromCacheOrDownload w ?st1) = Inr (pathJoin w (tcFind w ''witness'' v) ''witness'')
          \<and> searchPath (snd (fromCacheOrDownload w ?st1))
              = searchPath ?st1 @ [tcFind w ''witness'' v]
          \<and> AddPath (tcFind w ''witness'' v) \<in> set tr"
    using fromCacheOrDownload_calls [of w ?st1] by blast
  have n: "newCalls st (snd (getWitnessPath w st)) = tr0 @ tr"
    unfolding g using c0 c by (rule newCalls_compose)
  have ver': "if getInput w ''witness_version'' \<noteq> []
        then v = getInput w ''witness_version'' else fst (getLatestVersion w st) = Inr v"
    using ver getLatestVersion_state_free [of w st ?st1] by simp
  have k': "keyCalls (tr0 @ tr)
         = (if getInput w ''witness_version'' = [] then [Fetch releasesUrl] else [])
           @ [TcFind ''witness'' v]
           @ (if tcFind w ''witness'' v = [] then [DownloadTool (downloadUrl (platform w) v)]
              else [])"
    unfolding keyCalls_append k0 k by simp
  have va': "set (concat (map versionArgs (tr0 @ tr))) \<subseteq> {v}"
    using v0 va by simp
  have hit': "tcFind w ''witness'' v \<noteq> [] \<longrightarrow>
          fst (getWitnessPath w st) = Inr (pathJoin w (tcFind w ''witness'' v) ''witness'')
          \<and> searchPath (snd (getWitnessPath w st)) = searchPath st @ [tcFind w ''witness'' v]
          \<and> AddPath (tcFind w ''witness'' v) \<in> set (tr0 @ tr)"
    using hit unfolding g s0 by simp
  show ?thesis
    unfolding n using ver' k' va' hit' by blast
qed

lemma pathHit_testWorld: "\<not> pathHit testWorld"
  by (simp add: pathHit_def testWorld_def trim_def)

lemma pathHit_pinnedVersionWorld: "\<not> pathHit pinnedVersionWorld"
  by (simp add: pathHit_def pinnedVersionWorld_def testWorld_def trim_def)

lemma pathHit_cachedWorld: "\<not> pathHit cachedWorld"
  by (simp add: pathHit_def cachedWorld_def testWorld_def trim_def)

text \<open>
  C5. Without a PATH hit, the version \<open>v\<close> that the cache lookup and the download use
  is the \<open>witness_version\<close> input when that is not empty, and what
  \<open>getLatestVersion\<close> returns otherwise: the one cache lookup names \<open>v\<close>, the
  download, made only on a cache miss, has a URL that contains \<open>v\<close> prefixed with \<open>v\<close>,
  and the metadata fetch is made exactly when no version is requested. With \<open>0.9.0\<close>
  requested and not cached the download URL contains \<open>v0.9.0\<close>. With no version
  requested and the tag \<open>v0.10.1\<close> fetched, the version is \<open>0.10.1\<close>, and no cache call
  names \<open>0.8.1\<close> and no download URL contains \<open>v0.8.1\<close>.
\<close>

theorem version_used:
  assumes "\<not> pathHit w"
  shows "\<exists>v. (if getInput w ''witness_version'' \<noteq> [] then v = getInput w ''witness_version''
            else fst (getLatestVersion w st) = Inr v)
     \<and> filter isCacheLookup (newCalls st (snd (getWitnessPath w st))) = [TcFind ''witness'' v]
     \<and> filter isDownload (newCalls st (snd (getWitnessPath w st)))
         = (if tcFind w ''witness'' v = [] then [DownloadTool (downloadUrl (platform w) v)]
            else [])
     \<and> filter isFetch (newCalls st (snd (getWitnessPath w st)))
         = (if getInput w ''witness_version'' = [] then [Fetch releasesUrl] else [])
     \<and> keyCalls (newCalls st (snd (getWitnessPath w st)))
         = (if getInput w ''witness_version'' = [] then [Fetch releasesUrl] else [])
           @ [TcFind ''witness'' v]
           @ (if tcFind w ''witness'' v = [] then [DownloadTool (downloadUrl (platform w) v)]
              else [])
     \<and> includesStr (downloadUrl (platform w) v) (''v'' @ v)
     \<and> set (concat (map versionArgs (newCalls st (snd (getWitnessPath w st))))) \<subseteq> {v}
     \<and> (getInput w ''witness_version'' = ''0.9.0'' \<and> tcFind w ''witness'' ''0.9.0'' = [] \<longrightarrow>
          filter isDownload (newCalls st (snd (getWitnessPath w st)))
            = [DownloadTool (downloadUrl (platform w) ''0.9.0'')]
          \<and> includesStr (downloadUrl (platform w) ''0.9.0'') ''v0.9.0'')
     \<and> (getInput w ''witness_version'' = []
          \<and> (\<exists>resp data. fetchOutcome w = Inr resp \<and> ok resp \<and> json resp = Inr data
                \<and> tag_name data = Given ''v0.10.1'') \<longrightarrow>
          v = ''0.10.1''
          \<and> ''0.8.1'' \<notin> set (concat (map versionArgs (newCalls st (snd (getWitnessPath w st)))))
          \<and> set (filter isDownload (newCalls st (snd (getWitnessPath w st))))
              \<subseteq> {DownloadTool (downloadUrl (platform w) ''0.10.1'')}
          \<and> \<not> includesStr (downloadUrl (platform w) ''0.10.1'') ''v0.8.1'')"
proof -
  let ?new = "newCalls st (snd (getWitnessPath w st))"
  let ?input = "getInput w ''witness_version''"
  obtain v where ver: "if ?input \<noteq> [] then v = ?input else fst (getLatestVersion w st) = Inr v"
    and k: "keyCalls ?new
         = (if ?input = [] then [Fetch releasesUrl] else [])
           @ [TcFind ''witness'' v]
           @ (if tcFind w ''witness'' v = [] then [DownloadTool (downloadUrl (platform w) v)]
              else [])"
    and va: "set (concat (map versionArgs ?new)) \<subseteq> {v}"
    using getWitnessPath_miss_calls [OF assms, of st] by blast
  have "filter isCacheLookup (keyCalls ?new) = [TcFind ''witness'' v]"
    unfolding k by simp
  then have l: "filter isCacheLookup ?new = [TcFind ''witness'' v]"
    by (simp only: keyCalls_lookup)
  have "filter isDownload (keyCalls ?new)
      = (if tcFind w ''witness'' v = [] then [DownloadTool (downloadUrl (platform w) v)] else [])"
    unfolding k by simp
  then have d: "filter isDownload ?new
      = (if tcFind w ''witness'' v = [] then [DownloadTool (downloadUrl (platform w) v)] else [])"
    by (simp only: keyCalls_download)
  have "filter isFetch (keyCalls ?new) = (if ?input = [] then [Fetch releasesUrl] else [])"
    unfolding k by simp
  then have f: "filter isFetch ?new = (if ?input = [] then [Fetch releasesUrl] else [])"
    by (simp only: keyCalls_fetch)
  have u: "includesStr (downloadUrl (platform w) v) (''v'' @ v)"
    by (rule downloadUrl_names_version)
  have b: "?input = ''0.9.0'' \<and> tcFind w ''witness'' ''0.9.0'' = [] \<longrightarrow>
          filter isDownload ?new = [DownloadTool (downloadUrl (platform w) ''0.9.0'')]
          \<and> includesStr (downloadUrl (platform w) ''0.9.0'') ''v0.9.0''"
  proof (intro impI, elim conjE)
    assume i: "?input = ''0.9.0''" and m: "tcFind w ''witness'' ''0.9.0'' = []"
    have "v = ''0.9.0''" using ver i by simp
    then show "filter isDownload ?new = [DownloadTool (downloadUrl (platform w) ''0.9.0'')]
          \<and> includesStr (downloadUrl (platform w) ''0.9.0'') ''v0.9.0''"
      using d m downloadUrl_names_version [of "platform w" "''0.9.0''"] by simp
  qed
  have c: "?input = []
          \<and> (\<exists>resp data. fetchOutcome w = Inr resp \<and> ok resp \<and> json resp = Inr data
                \<and> tag_name data = Given ''v0.10.1'') \<longrightarrow>
          v = ''0.10.1''
          \<and> ''0.8.1'' \<notin> set (concat (map versionArgs ?new))
          \<and> set (filter isDownload ?new) \<subseteq> {DownloadTool (downloadUrl (platform w) ''0.10.1'')}
          \<and> \<not> includesStr (downloadUrl (platform w) ''0.10.1'') ''v0.8.1''"
  proof (intro impI, elim conjE exE)
    fix resp data
    assume i: "?input = []" and r: "fetchOutcome w = Inr resp" "ok resp" "json resp = Inr data"
      "tag_name data = Given ''v0.10.1''"
    have "fst (getLatestVersion w st) = Inr ''0.10.1''"
      using getLatestVersion_tag [OF r, of st] by simp
    then have e: "v = ''0.10.1''" using ver i by simp
    have "''0.8.1'' \<notin> set (concat (map versionArgs ?new))"
      using va unfolding e by auto
    moreover have "set (filter isDownload ?new) \<subseteq> {DownloadTool (downloadUrl (platform w) ''0.10.1'')}"
      unfolding d e by (cases "tcFind w ''witness'' ''0.10.1'' = []") simp_all
    ultimately show "v = ''0.10.1''
          \<and> ''0.8.1'' \<notin> set (concat (map versionArgs ?new))
          \<and> set (filter isDownload ?new) \<subseteq> {DownloadTool (downloadUrl (platform w) ''0.10.1'')}
          \<and> \<not> includesStr (downloadUrl (platform w) ''0.10.1'') ''v0.8.1''"
      using e downloadUrl_not_legacy by blast
  qed
  from ver l d f k u va b c show ?thesis
    by (intro exI [of _ v] conjI)
qed

theorem version_used_witness:
  "\<not> pathHit pinnedVersionWorld
   \<and> filter isCacheLookup
        (newCalls initialState (snd (getWitnessPath pinnedVersionWorld initialState)))
       = [TcFind ''witness'' ''0.9.0'']
   \<and> filter isDownload
        (newCalls initialState (snd (getWitnessPath pinnedVersionWorld initialState)))
       = [DownloadTool (''https://github.com/in-toto/witness/releases/download/v0.9.0/''
            @ ''witness_0.9.0_linux_amd64.tar.gz'')]
   \<and> \<not> pathHit testWorld
   \<and> keyCalls (newCalls initialState (snd (getWitnessPath testWorld initialState)))
       = [Fetch releasesUrl, TcFind ''witness'' ''0.10.1'',
          DownloadTool (''https://github.com/in-toto/witness/releases/download/v0.10.1/''
            @ ''witness_0.10.1_linux_amd64.tar.gz'')]"
proof -
  have i1: "getInput pinnedVersionWorld ''witness_version'' = ''0.9.0''"
    and m1: "tcFind pinnedVersionWorld ''witness'' ''0.9.0'' = []"
    and p1: "platform pinnedVersionWorld = ''linux''"
    by (simp_all add: pinnedVersionWorld_def testWorld_def)
  have i2: "getInput testWorld ''witness_version'' = []"
    and m2: "tcFind testWorld ''witness'' ''0.10.1'' = []"
    and p2: "platform testWorld = ''linux''"
    by (simp_all add: testWorld_def)
  have g2: "fst (getLatestVersion testWorld initialState) = Inr ''0.10.1''"
    by (simp add: getLatestVersion_def getLatestVersion_try_def testWorld_def ok_def Let_def)
  have a: "filter isCacheLookup
        (newCalls initialState (snd (getWitnessPath pinnedVersionWorld initialState)))
       = [TcFind ''witness'' ''0.9.0'']
     \<and> filter isDownload
        (newCalls initialState (snd (getWitnessPath pinnedVersionWorld initialState)))
       = [DownloadTool (''https://github.com/in-toto/witness/releases/download/v0.9.0/''
            @ ''witness_0.9.0_linux_amd64.tar.gz'')]"
    using version_used [OF pathHit_pinnedVersionWorld, of initialState] unfolding i1
    by (simp add: m1 p1 downloadUrl_def archiveFile_def)
  have b: "keyCalls (newCalls initialState (snd (getWitnessPath testWorld initialState)))
       = [Fetch releasesUrl, TcFind ''witness'' ''0.10.1'',
          DownloadTool (''https://github.com/in-toto/witness/releases/download/v0.10.1/''
            @ ''witness_0.10.1_linux_amd64.tar.gz'')]"
    using version_used [OF pathHit_testWorld, of initialState] unfolding i2 g2
    by (simp add: m2 p2 downloadUrl_def archiveFile_def)
  from a b pathHit_pinnedVersionWorld pathHit_testWorld show ?thesis by simp
qed

text \<open>
  C6. Without a PATH hit, when the tool cache has an entry for the chosen version, no
  download is made, the returned path is \<open>path.join\<close> of the cache directory and
  \<open>witness\<close>, and the cache directory is handed to \<open>core.addPath\<close>.
\<close>

theorem cache_hit_no_download:
  assumes "\<not> pathHit w"
    and "if getInput w ''witness_version'' \<noteq> [] then v = getInput w ''witness_version''
         else fst (getLatestVersion w st) = Inr v"
    and "tcFind w ''witness'' v \<noteq> []"
  shows "fst (getWitnessPath w st) = Inr (pathJoin w (tcFind w ''witness'' v) ''witness'')
     \<and> filter isDownload (newCalls st (snd (getWitnessPath w st))) = []
     \<and> searchPath (snd (getWitnessPath w st)) = searchPath st @ [tcFind w ''witness'' v]
     \<and> AddPath (tcFind w ''witness'' v) \<in> set (newCalls st (snd (getWitnessPath w st)))"
proof -
  let ?new = "newCalls st (snd (getWitnessPath w st))"
  let ?input = "getInput w ''witness_version''"
  obtain v' where ver: "if ?input \<noteq> [] then v' = ?input
        else fst (getLatestVersion w st) = Inr v'"
    and k: "keyCalls ?new
         = (if ?input = [] then [Fetch releasesUrl] else [])
           @ [TcFind ''witness'' v']
           @ (if tcFind w ''witness'' v' = [] then [DownloadTool (downloadUrl (platform w) v')]
              else [])"
    and hit: "tcFind w ''witness'' v' \<noteq> [] \<longrightarrow>
          fst (getWitnessPath w st) = Inr (pathJoin w (tcFind w ''witness'' v') ''witness'')
          \<and> searchPath (snd (getWitnessPath w st)) = searchPath st @ [tcFind w ''witness'' v']
          \<and> AddPath (tcFind w ''witness'' v') \<in> set ?new"
    using getWitnessPath_miss_calls [OF assms(1), of st] by blast
  have e: "v' = v"
    using ver assms(2) by (cases "?input = []") simp_all
  have "filter isDownload (keyCalls ?new) = []"
    unfolding k e using assms(3) by simp
  then have d: "filter isDownload ?new = []"
    by (simp only: keyCalls_download)
  show ?thesis
    using hit d assms(3) unfolding e by blast
qed

theorem cache_hit_no_download_witness:
  "\<not> pathHit cachedWorld
   \<and> tcFind cachedWorld ''witness'' ''0.10.1'' = ''/opt/hostedtoolcache/witness/0.10.1/x64''
   \<and> fst (getWitnessPath cachedWorld initialState)
       = Inr ''/opt/hostedtoolcache/witness/0.10.1/x64/witness''
   \<and> filter isDownload (newCalls initialState (snd (getWitnessPath cachedWorld initialState)))
       = []
   \<and> searchPath (snd (getWitnessPath cachedWorld initialState))
       = [''/opt/hostedtoolcache/witness/0.10.1/x64'']"
proof -
  have i: "if getInput cachedWorld ''witness_version'' \<noteq> []
      then ''0.10.1'' = getInput cachedWorld ''witness_version''
      else fst (getLatestVersion cachedWorld initialState) = Inr ''0.10.1''"
    by (simp add: cachedWorld_def testWorld_def)
  have m: "tcFind cachedWorld ''witness'' ''0.10.1'' = ''/opt/hostedtoolcache/witness/0.10.1/x64''"
    and j: "pathJoin cachedWorld = testJoin"
    by (simp_all add: cachedWorld_def testWorld_def)
  have n: "tcFind cachedWorld ''witness'' ''0.10.1'' \<noteq> []"
    unfolding m by simp
  show ?thesis
    using cache_hit_no_download [OF pathHit_cachedWorld i n] pathHit_cachedWorld
    unfolding m j by (simp add: testJoin_def initialState_def)
qed

text \<open>
  C9. The temporary extraction directory is to be removed before \<open>downloadWitnessVersion\<close>
  terminates, also when extraction or caching fails. The code removes it only when it
  reaches its last step: with a failing \<open>tc.extractTar\<close>, and with a failing
  \<open>tc.cacheFile\<close>, the call throws, the directory still exists and \<open>fs.promises.rm\<close> was
  never called; on the successful run the directory is removed.
\<close>

theorem temp_directory_left_behind:
  "fst (downloadWitnessVersion extractFailsWorld ''0.10.1'' initialState)
     = Inl (JsError ''Failed to extract witness archive: tar exited with code 2'')
   \<and> tempDirs (snd (downloadWitnessVersion extractFailsWorld ''0.10.1'' initialState))
       = [''/tmp/witness-extract-k3x9q'']
   \<and> filter isRm (calls (snd (downloadWitnessVersion extractFailsWorld ''0.10.1'' initialState)))
       = []
   \<and> fst (downloadWitnessVersion cacheFailsWorld ''0.10.1'' initialState)
       = Inl (JsError ''Failed to cache witness: ENOSPC: no space left on device'')
   \<and> tempDirs (snd (downloadWitnessVersion cacheFailsWorld ''0.10.1'' initialState))
       = [''/tmp/witness-extract-k3x9q'']
   \<and> filter isRm (calls (snd (downloadWitnessVersion cacheFailsWorld ''0.10.1'' initialState)))
       = []
   \<and> fst (downloadWitnessVersion testWorld ''0.10.1'' initialState)
       = Inr ''/opt/hostedtoolcache/witness/0.10.1/x64/witness''
   \<and> tempDirs (snd (downloadWitnessVersion testWorld ''0.10.1'' initialState)) = []
   \<and> filter isRm (calls (snd (downloadWitnessVersion testWorld ''0.10.1'' initialState)))
       = [Rm ''/tmp/witness-extract-k3x9q'']"
proof -
  have e: "downloadWitnessVersion extractFailsWorld ''0.10.1'' initialState
      = (Inl (JsError ''Failed to extract witness archive: tar exited with code 2''),
         \<lparr>calls =
            [Info (''Downloading witness from: '' @ downloadUrl ''linux'' ''0.10.1''),
             DownloadTool (downloadUrl ''linux'' ''0.10.1''),
             Info ''Downloaded witness archive to: /tmp/witness.tar.gz'',
             MkdirSync ''/tmp/witness-extract-k3x9q'',
             Info ''Created temporary directory: /tmp/witness-extract-k3x9q'',
             ExtractTar ''/tmp/witness.tar.gz'' ''/tmp/witness-extract-k3x9q''],
          searchPath = [], tempDirs = [''/tmp/witness-extract-k3x9q'']\<rparr>)"
    by (simp add: downloadWitnessVersion_def extractFailsWorld_def testWorld_def
        initialState_def tempDirOf_def testJoin_def emit_def Let_def)
  have c: "downloadWitnessVersion cacheFailsWorld ''0.10.1'' initialState
      = (Inl (JsError ''Failed to cache witness: ENOSPC: no space left on device''),
         \<lparr>calls =
            [Info (''Downloading witness from: '' @ downloadUrl ''linux'' ''0.10.1''),
             DownloadTool (downloadUrl ''linux'' ''0.10.1''),
             Info ''Downloaded witness archive to: /tmp/witness.tar.gz'',
             MkdirSync ''/tmp/witness-extract-k3x9q'',
             Info ''Created temporary directory: /tmp/witness-extract-k3x9q'',
             ExtractTar ''/tmp/witness.tar.gz'' ''/tmp/witness-extract-k3x9q'',
             Info ''Extracted witness to: /tmp/witness-extract'',
             Info ''Witness executable path: /tmp/witness-extract/witness'',
             ChmodSync ''/tmp/witness-extract/witness'' ''755'',
             Info ''Made witness executable'',
             CacheFile ''/tmp/witness-extract/witness'' ''witness'' ''witness'' ''0.10.1''],
          searchPath = [], tempDirs = [''/tmp/witness-extract-k3x9q'']\<rparr>)"
    by (simp add: downloadWitnessVersion_def installExtracted_def cacheFailsWorld_def
        testWorld_def initialState_def tempDirOf_def testJoin_def emit_def Let_def)
  have t: "downloadWitnessVersion testWorld ''0.10.1'' initialState
      = (Inr ''/opt/hostedtoolcache/witness/0.10.1/x64/witness'',
         \<lparr>calls =
            [Info (''Downloading witness from: '' @ downloadUrl ''linux'' ''0.10.1''),
             DownloadTool (downloadUrl ''linux'' ''0.10.1''),
             Info ''Downloaded witness archive to: /tmp/witness.tar.gz'',
             MkdirSync ''/tmp/witness-extract-k3x9q'',
             Info ''Created temporary directory: /tmp/witness-extract-k3x9q'',
             ExtractTar ''/tmp/witness.tar.gz'' ''/tmp/witness-extract-k3x9q'',
             Info ''Extracted witness to: /tmp/witness-extract'',
             Info ''Witness executable path: /tmp/witness-extract/witness'',
             ChmodSync ''/tmp/witness-extract/witness'' ''755'',
             Info ''Made witness executable'',
             CacheFile ''/tmp/witness-extract/witness'' ''witness'' ''witness'' ''0.10.1'',
             Info ''Cached witness at: /opt/hostedtoolcache/witness/0.10.1/x64'',
             AddPath ''/opt/hostedtoolcache/witness/0.10.1'',
             Info ''Added witness to PATH: /opt/hostedtoolcache/witness/0.10.1'',
             Rm ''/tmp/witness-extract-k3x9q'',
             Info ''Cleaned up temporary directory''],
          searchPath = [''/opt/hostedtoolcache/witness/0.10.1''], tempDirs = []\<rparr>)"
    by (simp add: downloadWitnessVersion_def installExtracted_def cleanUpAndReturn_def
        testWorld_def initialState_def tempDirOf_def testJoin_def testDirname_def
        emit_def addPath_def endsWith_def Let_def)
  show ?thesis
    unfolding e c t by simp
qed

text \<open>What a failing \<open>chmod\<close> leads to, and where a throw can come from.\<close>

lemma downloadWitnessVersion_chmod_fails:
  assumes "tcDownloadTool w (downloadUrl (platform w) v) = Inr archive"
    and "fsMkdirSync w (tempDirOf w) = Inr ()"
    and "tcExtractTar w archive (tempDirOf w) = Inr dir"
    and "fsChmodSync w (pathJoin w dir ''witness'') ''755'' = Inl e"
  shows "take 2 (dropWhile (\<lambda>c. c \<noteq> Warning (''Failed to make witness executable: '' @ message e))
            (newCalls st (snd (downloadWitnessVersion w v st))))
       = [Warning (''Failed to make witness executable: '' @ message e),
          CacheFile (pathJoin w dir ''witness'') ''witness'' ''witness'' v]"
    and "tcCacheFile w (pathJoin w dir ''witness'') ''witness'' ''witness'' v = Inr cached \<Longrightarrow>
       \<exists>path. fst (downloadWitnessVersion w v st) = Inr path"
  using assms
  by (simp_all add: downloadWitnessVersion_def installExtracted_def cleanUpAndReturn_def
      emit_def addPath_def newCalls_def Let_def split: sum.splits)

lemma downloadWitnessVersion_throws:
  assumes "fst (downloadWitnessVersion w v st) = Inl err"
  shows "(\<exists>e. tcDownloadTool w (downloadUrl (platform w) v) = Inl e
            \<and> err = JsError (''Failed to download witness: '' @ message e))
      \<or> (\<exists>archive. tcDownloadTool w (downloadUrl (platform w) v) = Inr archive
            \<and> fsMkdirSync w (tempDirOf w) = Inl err)
      \<or> (\<exists>archive e. tcDownloadTool w (downloadUrl (platform w) v) = Inr archive
            \<and> tcExtractTar w archive (tempDirOf w) = Inl e
            \<and> err = JsError (''Failed to extract witness archive: '' @ message e))
      \<or> (\<exists>archive dir e. tcDownloadTool w (downloadUrl (platform w) v) = Inr archive
            \<and> tcExtractTar w archive (tempDirOf w) = Inr dir
            \<and> tcCacheFile w (pathJoin w dir ''witness'') ''witness'' ''witness'' v = Inl e
            \<and> err = JsError (''Failed to cache witness: '' @ message e))"
  using assms
  by (auto simp: downloadWitnessVersion_def installExtracted_def cleanUpAndReturn_def
      Let_def split: sum.splits)

text \<open>
  C10. A failing \<open>fs.chmodSync\<close> never aborts \<open>downloadWitnessVersion\<close>: the warning is
  logged, the next call is \<open>tc.cacheFile\<close>, and the call returns whenever caching
  succeeds. When the call throws, the download failed, or creating the temporary
  directory failed, or the extraction failed, or the caching failed.
\<close>

theorem chmod_failure_not_fatal:
  "(\<forall>archive dir e. tcDownloadTool w (downloadUrl (platform w) v) = Inr archive
        \<and> fsMkdirSync w (tempDirOf w) = Inr ()
        \<and> tcExtractTar w archive (tempDirOf w) = Inr dir
        \<and> fsChmodSync w (pathJoin w dir ''witness'') ''755'' = Inl e \<longrightarrow>
      take 2 (dropWhile
          (\<lambda>c. c \<noteq> Warning (''Failed to make witness executable: '' @ message e))
          (newCalls st (snd (downloadWitnessVersion w v st))))
        = [Warning (''Failed to make witness executable: '' @ message e),
           CacheFile (pathJoin w dir ''witness'') ''witness'' ''witness'' v]
      \<and> (\<forall>cached. tcCacheFile w (pathJoin w dir ''witness'') ''witness'' ''witness'' v
              = Inr cached \<longrightarrow>
            (\<exists>path. fst (downloadWitnessVersion w v st) = Inr path)))
   \<and> (\<forall>err. fst (downloadWitnessVersion w v st) = Inl err \<longrightarrow>
        (\<exists>e. tcDownloadTool w (downloadUrl (platform w) v) = Inl e
            \<and> err = JsError (''Failed to download witness: '' @ message e))
      \<or> (\<exists>archive. tcDownloadTool w (downloadUrl (platform w) v) = Inr archive
            \<and> fsMkdirSync w (tempDirOf w) = Inl err)
      \<or> (\<exists>archive e. tcDownloadTool w (downloadUrl (platform w) v) = Inr archive
            \<and> tcExtractTar w archive (tempDirOf w) = Inl e
            \<and> err = JsError (''Failed to extract witness archive: '' @ message e))
      \<or> (\<exists>archive dir e. tcDownloadTool w (downloadUrl (platform w) v) = Inr archive
            \<and> tcExtractTar w archive (tempDirOf w) = Inr dir
            \<and> tcCacheFile w (pathJoin w dir ''witness'') ''witness'' ''witness'' v = Inl e
            \<and> err = JsError (''Failed to cache witness: '' @ message e)))"
proof (intro conjI allI impI)
  fix archive dir e
  assume a: "tcDownloadTool w (downloadUrl (platform w) v) = Inr archive
        \<and> fsMkdirSync w (tempDirOf w) = Inr ()
        \<and> tcExtractTar w archive (tempDirOf w) = Inr dir
        \<and> fsChmodSync w (pathJoin w dir ''witness'') ''755'' = Inl e"
  then show "take 2 (dropWhile
          (\<lambda>c. c \<noteq> Warning (''Failed to make witness executable: '' @ message e))
          (newCalls st (snd (downloadWitnessVersion w v st))))
        = [Warning (''Failed to make witness executable: '' @ message e),
           CacheFile (pathJoin w dir ''witness'') ''witness'' ''witness'' v]"
    using downloadWitnessVersion_chmod_fails(1) [of w v archive dir e st] by blast
  fix cached
  assume "tcCacheFile w (pathJoin w dir ''witness'') ''witness'' ''witness'' v = Inr cached"
  then show "\<exists>path. fst (downloadWitnessVersion w v st) = Inr path"
    using a downloadWitnessVersion_chmod_fails(2) [of w v archive dir e cached st] by blast
next
  fix err
  assume "fst (downloadWitnessVersion w v st) = Inl err"
  then show "(\<exists>e. tcDownloadTool w (downloadUrl (platform w) v) = Inl e
            \<and> err = JsError (''Failed to download witness: '' @ message e))
      \<or> (\<exists>archive. tcDownloadTool w (downloadUrl (platform w) v) = Inr archive
            \<and> fsMkdirSync w (tempDirOf w) = Inl err)
      \<or> (\<exists>archive e. tcDownloadTool w (downloadUrl (platform w) v) = Inr archive
            \<and> tcExtractTar w archive (tempDirOf w) = Inl e
            \<and> err = JsError (''Failed to extract witness archive: '' @ message e))
      \<or> (\<exists>archive dir e. tcDownloadTool w (downloadUrl (platform w) v) = Inr archive
            \<and> tcExtractTar w archive (tempDirOf w) = Inr dir
            \<and> tcCacheFile w (pathJoin w dir ''witness'') ''witness'' ''witness'' v = Inl e
            \<and> err = JsError (''Failed to cache witness: '' @ message e))"
    by (rule downloadWitnessVersion_throws)
qed

theorem chmod_failure_not_fatal_witness:
  "fsChmodSync chmodFailsWorld ''/tmp/witness-extract/witness'' ''755''
     = Inl (JsError ''EPERM: operation not permitted, chmod'')
   \<and> take 2 (dropWhile
        (\<lambda>c. c \<noteq> Warning ''Failed to make witness executable: EPERM: operation not permitted, chmod'')
        (newCalls initialState (snd (downloadWitnessVersion chmodFailsWorld ''0.10.1'' initialState))))
      = [Warning ''Failed to make witness executable: EPERM: operation not permitted, chmod'',
         CacheFile ''/tmp/witness-extract/witness'' ''witness'' ''witness'' ''0.10.1'']
   \<and> (\<exists>path. fst (downloadWitnessVersion chmodFailsWorld ''0.10.1'' initialState) = Inr path)
   \<and> fst (downloadWitnessVersion extractFailsWorld ''0.10.1'' initialState)
       = Inl (JsError ''Failed to extract witness archive: tar exited with code 2'')
   \<and> tcExtractTar extractFailsWorld ''/tmp/witness.tar.gz'' ''/tmp/witness-extract-k3x9q''
       = Inl (JsError ''tar exited with code 2'')"
proof -
  let ?url = "downloadUrl (platform chmodFailsWorld) ''0.10.1''"
  have a: "tcDownloadTool chmodFailsWorld ?url = Inr ''/tmp/witness.tar.gz''
      \<and> fsMkdirSync chmodFailsWorld (tempDirOf chmodFailsWorld) = Inr ()
      \<and> tcExtractTar chmodFailsWorld ''/tmp/witness.tar.gz'' (tempDirOf chmodFailsWorld)
          = Inr ''/tmp/witness-extract''
      \<and> fsChmodSync chmodFailsWorld (pathJoin chmodFailsWorld ''/tmp/witness-extract'' ''witness'')
          ''755'' = Inl (JsError ''EPERM: operation not permitted, chmod'')"
    by (simp add: chmodFailsWorld_def testWorld_def)
  have j: "pathJoin chmodFailsWorld ''/tmp/witness-extract'' ''witness''
      = ''/tmp/witness-extract/witness''"
    by (simp add: chmodFailsWorld_def testWorld_def testJoin_def)
  have c: "tcCacheFile chmodFailsWorld ''/tmp/witness-extract/witness'' ''witness'' ''witness''
      ''0.10.1'' = Inr ''/opt/hostedtoolcache/witness/0.10.1/x64''"
    by (simp add: chmodFailsWorld_def testWorld_def)
  note t = chmod_failure_not_fatal [of chmodFailsWorld "''0.10.1''" initialState]
  note t1 = t [THEN conjunct1, THEN spec, THEN spec, THEN spec, THEN mp, OF a]
  have 1: "take 2 (dropWhile
        (\<lambda>c. c \<noteq> Warning ''Failed to make witness executable: EPERM: operation not permitted, chmod'')
        (newCalls initialState (snd (downloadWitnessVersion chmodFailsWorld ''0.10.1'' initialState))))
      = [Warning ''Failed to make witness executable: EPERM: operation not permitted, chmod'',
         CacheFile ''/tmp/witness-extract/witness'' ''witness'' ''witness'' ''0.10.1'']"
    using t1 [THEN conjunct1] unfolding j by simp
  have 2: "\<exists>path. fst (downloadWitnessVersion chmodFailsWorld ''0.10.1'' initialState) = Inr path"
    using t1 [THEN conjunct2, THEN spec, THEN mp] c unfolding j by blast
  have 3: "fst (downloadWitnessVersion extractFailsWorld ''0.10.1'' initialState)
       = Inl (JsError ''Failed to extract witness archive: tar exited with code 2'')"
    by (simp add: downloadWitnessVersion_def extractFailsWorld_def testWorld_def
        initialState_def tempDirOf_def testJoin_def emit_def Let_def)
  have 4: "tcExtractTar extractFailsWorld ''/tmp/witness.tar.gz'' ''/tmp/witness-extract-k3x9q''
       = Inl (JsError ''tar exited with code 2'')"
    by (simp add: extractFailsWorld_def testWorld_def)
  have 5: "fsChmodSync chmodFailsWorld ''/tmp/witness-extract/witness'' ''755''
     = Inl (JsError ''EPERM: operation not permitted, chmod'')"
    by (simp add: chmodFailsWorld_def testWorld_def)
  from 1 2 3 4 5 show ?thesis by blast
qed

text \<open>
  \<open>fs.mkdirSync\<close> stands outside every \<open>try\<close> block: when it throws, the call throws,
  although download, extraction and caching would all succeed.
\<close>

theorem mkdir_failure_is_fatal:
  "fst (downloadWitnessVersion mkdirFailsWorld ''0.10.1'' initialState)
     = Inl (JsError ''EACCES: permission denied, mkdir'')
   \<and> tcDownloadTool mkdirFailsWorld (downloadUrl (platform mkdirFailsWorld) ''0.10.1'')
       = Inr ''/tmp/witness.tar.gz''
   \<and> tcExtractTar mkdirFailsWorld ''/tmp/witness.tar.gz'' (tempDirOf mkdirFailsWorld)
       = Inr ''/tmp/witness-extract''
   \<and> tcCacheFile mkdirFailsWorld ''/tmp/witness-extract/witness'' ''witness'' ''witness''
        ''0.10.1'' = Inr ''/opt/hostedtoolcache/witness/0.10.1/x64''"
  by (simp add: downloadWitnessVersion_def mkdirFailsWorld_def testWorld_def
      initialState_def tempDirOf_def testJoin_def emit_def Let_def)

end
